theory Spec2Isabelle
  imports Main "HOL-Library.Sublist"
begin

section \<open>JavaScript strings and optional fields\<close>

text \<open>
  A JavaScript string is a sequence of 16-bit code units. A string the program receives
  is modelled as a \<open>string\<close>, a list of 8-bit characters read as the code units U+0000 to
  U+00FF (ASCII and Latin-1); an optional string field (\<open>field?: string\<close>) is a
  \<open>string option\<close> with \<open>None\<close> for \<open>undefined\<close>.

  \<open>toLowerCase\<close> keeps such a string within that range: A to Z, and the Latin-1 capitals
  U+00C0 to U+00DE other than the multiplication sign U+00D7, move up by 32.
\<close>

definition toLowerChar :: "char \<Rightarrow> char" where
  "toLowerChar c =
     (let n = of_char c :: nat
      in if 65 \<le> n \<and> n \<le> 90 then char_of (n + 32)
         else if 192 \<le> n \<and> n \<le> 222 \<and> n \<noteq> 215 then char_of (n + 32)
         else c)"

definition toLowerCase :: "string \<Rightarrow> string" where
  "toLowerCase s = map toLowerChar s"

text \<open>
  \<open>toUpperCase\<close> does not keep it within that range, nor its length: the micro sign
  U+00B5 becomes U+039C, the sharp s U+00DF becomes the two letters SS, and y with
  diaeresis U+00FF becomes U+0178. Its result is therefore a list of code units.
  \<open>upperUnits\<close> is the upper-case form of one code unit below 256.
\<close>

definition upperUnits :: "nat \<Rightarrow> nat list" where
  "upperUnits n =
     (if n = 181 then [924]
      else if n = 223 then [83, 83]
      else if n = 255 then [376]
      else if n \<in> {97..122} \<union> {224..246} \<union> {248..254} then [n - 32]
      else [n])"

definition toUpperCase :: "string \<Rightarrow> nat list" where
  "toUpperCase s = concat (map (\<lambda>c. upperUnits (of_char c)) s)"

text \<open>
  \<open>s.startsWith(t)\<close>: \<open>s\<close> begins with \<open>t\<close>. \<open>s.includes(t)\<close>: \<open>t\<close> occurs in \<open>s\<close> as a
  contiguous block, at some position.
\<close>

fun startsWith :: "string \<Rightarrow> string \<Rightarrow> bool" where
  "startsWith s [] = True"
| "startsWith [] (c # t) = False"
| "startsWith (a # s) (c # t) = (a = c \<and> startsWith s t)"

fun includes_str :: "string \<Rightarrow> string \<Rightarrow> bool" where
  "includes_str [] t = (t = [])"
| "includes_str (a # s) t = (startsWith (a # s) t \<or> includes_str s t)"

text \<open>
  \<open>a || b\<close> on two optional strings, and \<open>a || 'literal'\<close>: \<open>undefined\<close> and the empty string
  are falsy, so the right operand is taken for both.
\<close>

definition truthy_str :: "string option \<Rightarrow> bool" where
  "truthy_str a = (case a of None \<Rightarrow> False | Some s \<Rightarrow> s \<noteq> [])"

definition or_else :: "string option \<Rightarrow> string option \<Rightarrow> string option" where
  "or_else a b = (if truthy_str a then a else b)"

definition or_default :: "string option \<Rightarrow> string \<Rightarrow> string" where
  "or_default a d = (case a of None \<Rightarrow> d | Some s \<Rightarrow> if s = [] then d else s)"

section \<open>The crawler's result records and their deduplication\<close>

record PatentResult =
  patentNumber :: "string option"
  applicationNumber :: "string option"
  pr_title :: "string option"
  pr_abstract :: "string option"
  pr_inventors :: "string list option"
  pr_applicant :: "string option"
  pr_assignee :: "string option"
  pr_filingDate :: "string option"
  pr_grantDate :: "string option"
  pr_status :: "string option"
  pr_classification :: "string list option"
  pr_claims :: "string list option"
  pr_url :: "string option"
  pdfUrl :: "string option"

record TrademarkResult =
  serialNumber :: "string option"
  registrationNumber :: "string option"
  mark :: "string option"
  owner :: "string option"
  tm_filingDate :: "string option"
  registrationDate :: "string option"
  tm_status :: "string option"
  goodsAndServices :: "string option"
  tm_classification :: "string list option"
  tm_url :: "string option"
  imageUrl :: "string option"

text \<open>
  Both deduplications are \<open>Array.prototype.filter\<close> with a callback that consults and
  extends a \<open>Set<string>\<close> of the keys seen so far. \<open>filter_seen\<close> is that filter: the set
  is threaded through the traversal, an element whose key is in the set is dropped, any
  other element is kept and its key is added.
\<close>

fun filter_seen :: "('a \<Rightarrow> string) \<Rightarrow> string set \<Rightarrow> 'a list \<Rightarrow> 'a list" where
  "filter_seen key seen [] = []"
| "filter_seen key seen (x # xs) =
     (if key x \<in> seen then filter_seen key seen xs
      else x # filter_seen key (insert (key x) seen) xs)"

definition patentKey :: "PatentResult \<Rightarrow> string" where
  "patentKey patent = or_default (or_else (patentNumber patent) (applicationNumber patent)) ''''"

definition trademarkKey :: "TrademarkResult \<Rightarrow> string" where
  "trademarkKey trademark =
     or_default (or_else (serialNumber trademark) (registrationNumber trademark)) ''''"

definition deduplicatePatents :: "PatentResult list \<Rightarrow> PatentResult list" where
  "deduplicatePatents patents = filter_seen patentKey {} patents"

definition deduplicateTrademarks :: "TrademarkResult list \<Rightarrow> TrademarkResult list" where
  "deduplicateTrademarks trademarks = filter_seen trademarkKey {} trademarks"


section \<open>Loosely typed values\<close>

text \<open>
  The external index answers with JSON that the service reads as \<open>any\<close>, and the records
  it builds carry whatever values it found. \<open>json\<close> is the run-time value of such an
  expression: \<open>JUndefined\<close> is a missing property, \<open>JFun\<close> a built-in method object
  (named), \<open>JObj\<close> lists the properties in the order of the text. A number is carried
  as its decimal text, the result of \<open>String(x)\<close>; the program only tests numbers for
  truth and prints them, and the one falsy number JSON can give, zero, prints as \<open>0\<close>.
\<close>

datatype json =
    JUndefined
  | JNull
  | JBool bool
  | JNum string
  | JStr string
  | JArr "json list"
  | JObj "(string \<times> json) list"
  | JFun string

datatype js_error = Error string | TypeError string

fun truthy :: "json \<Rightarrow> bool" where
  "truthy JUndefined = False"
| "truthy JNull = False"
| "truthy (JBool b) = b"
| "truthy (JNum n) = (n \<noteq> ''0'')"
| "truthy (JStr s) = (s \<noteq> [])"
| "truthy (JArr xs) = True"
| "truthy (JObj kvs) = True"
| "truthy (JFun f) = True"

definition js_or :: "json \<Rightarrow> json \<Rightarrow> json" where
  "js_or a b = (if truthy a then a else b)"

text \<open>A property of an object parsed from JSON: the last binding of a repeated key wins.\<close>

definition lookup :: "(string \<times> json) list \<Rightarrow> string \<Rightarrow> json" where
  "lookup kvs p = (case map_of (rev kvs) p of None \<Rightarrow> JUndefined | Some v \<Rightarrow> v)"

text \<open>
  \<open>x.p\<close> for the property names the service reads (\<open>results\<close>, \<open>cluster\<close>, \<open>result\<close>,
  \<open>patent\<close>, \<open>title\<close>, \<open>text\<close>, \<open>name\<close>, \<open>link\<close>, ...): reading a property of
  \<open>undefined\<close> or \<open>null\<close> throws a TypeError; an object answers with its own property;
  strings, numbers, booleans and arrays have no property of these names, except that every
  string inherits the method \<open>String.prototype.link\<close>.
\<close>

fun getprop :: "json \<Rightarrow> string \<Rightarrow> js_error + json" where
  "getprop JUndefined p = Inl (TypeError (''Cannot read properties of undefined (reading '' @ p @ '')''))"
| "getprop JNull p = Inl (TypeError (''Cannot read properties of null (reading '' @ p @ '')''))"
| "getprop (JObj kvs) p = Inr (lookup kvs p)"
| "getprop (JStr s) p = Inr (if p = ''link'' then JFun ''String.prototype.link'' else JUndefined)"
| "getprop v p = Inr JUndefined"

text \<open>\<open>x?.p\<close>: \<open>undefined\<close> when \<open>x\<close> is \<open>undefined\<close> or \<open>null\<close>.\<close>

fun getprop_opt :: "json \<Rightarrow> string \<Rightarrow> json" where
  "getprop_opt JUndefined p = JUndefined"
| "getprop_opt JNull p = JUndefined"
| "getprop_opt v p = (case getprop v p of Inl e \<Rightarrow> JUndefined | Inr w \<Rightarrow> w)"

text \<open>\<open>x[0]\<close> on a value that is not \<open>undefined\<close> or \<open>null\<close>.\<close>

fun index0 :: "json \<Rightarrow> json" where
  "index0 (JArr []) = JUndefined"
| "index0 (JArr (x # xs)) = x"
| "index0 (JStr []) = JUndefined"
| "index0 (JStr (c # s)) = JStr [c]"
| "index0 (JObj kvs) = lookup kvs ''0''"
| "index0 v = JUndefined"

fun join :: "string \<Rightarrow> string list \<Rightarrow> string" where
  "join sep [] = []"
| "join sep [s] = s"
| "join sep (s # t # ss) = s @ sep @ join sep (t # ss)"

text \<open>
  The string a value becomes inside a template string \<open>`...${v}...`\<close>; inside an array,
  \<open>null\<close> and \<open>undefined\<close> become the empty string.
\<close>

fun toString :: "json \<Rightarrow> string" where
  "toString JUndefined = ''undefined''"
| "toString JNull = ''null''"
| "toString (JBool b) = (if b then ''true'' else ''false'')"
| "toString (JNum n) = n"
| "toString (JStr s) = s"
| "toString (JArr xs) =
     join '','' (map (\<lambda>x. if x = JUndefined \<or> x = JNull then [] else toString x) xs)"
| "toString (JObj kvs) = ''[object Object]''"
| "toString (JFun f) = ''function '' @ f @ ''() { [native code] }''"

text \<open>
  \<open>xs.slice(0, fin)\<close>: a negative \<open>fin\<close> counts from the end of the array, and the
  result never reaches outside the array.
\<close>

definition slice0 :: "'a list \<Rightarrow> int \<Rightarrow> 'a list" where
  "slice0 xs fin =
     (let len = int (length xs);
          k = (if fin < 0 then max (len + fin) 0 else min fin len)
      in take (nat k) xs)"

text \<open>
  \<open>s.trim()\<close> removes white space and line terminators at both ends.
  \<open>isWhiteSpaceUnit\<close> lists the code units it removes: tab, line feed, vertical tab, form
  feed, carriage return, space, the no-break space U+00A0, and beyond U+00FF the spaces
  U+1680, U+2000 to U+200A, U+202F, U+205F, U+3000, the line and paragraph separators
  U+2028 and U+2029, and the byte order mark U+FEFF. A character of a modelled string is
  white space when its code unit is; only the first seven can occur there.
\<close>

definition isWhiteSpaceUnit :: "nat \<Rightarrow> bool" where
  "isWhiteSpaceUnit n =
     (n \<in> {9, 10, 11, 12, 13, 32, 160, 5760, 8232, 8233, 8239, 8287, 12288, 65279}
      \<or> (8192 \<le> n \<and> n \<le> 8202))"

definition isWhiteSpace :: "char \<Rightarrow> bool" where
  "isWhiteSpace c = isWhiteSpaceUnit (of_char c)"

definition trim :: "string \<Rightarrow> string" where
  "trim s = rev (dropWhile isWhiteSpace (rev (dropWhile isWhiteSpace s)))"

section \<open>The search service: records, environment and state\<close>

text \<open>
  A \<open>PatentSearchResult\<close> is built field by field from scraped text, from the external
  index's JSON or from literals, so its fields hold run-time values; a field that was
  never set is \<open>JUndefined\<close>.
\<close>

record PatentSearchResult =
  sr_patentNumber :: json
  sr_title :: json
  sr_abstract :: json
  sr_inventors :: json
  sr_applicant :: json
  sr_filingDate :: json
  sr_grantDate :: json
  sr_url :: json

text \<open>
  The \<open>mark\<close> of a \<open>TrademarkSearchResult\<close> is an upper-cased text, so it is a list of
  code units; the other fields are literals.
\<close>

record TrademarkSearchResult =
  ts_serialNumber :: "string option"
  ts_registrationNumber :: "string option"
  ts_mark :: "nat list option"
  ts_owner :: "string option"
  ts_filingDate :: "string option"
  ts_status :: "string option"
  ts_url :: "string option"

definition mkPatent ::
  "string \<Rightarrow> string \<Rightarrow> string \<Rightarrow> string list \<Rightarrow> string \<Rightarrow> string \<Rightarrow> string \<Rightarrow> string
     \<Rightarrow> PatentSearchResult" where
  "mkPatent number ttl abstr invs app filed granted link =
     \<lparr>sr_patentNumber = JStr number, sr_title = JStr ttl, sr_abstract = JStr abstr,
      sr_inventors = JArr (map JStr invs), sr_applicant = JStr app, sr_filingDate = JStr filed,
      sr_grantDate = JStr granted, sr_url = JStr link\<rparr>"

text \<open>
  What one result element of a scraped page gives to the extraction code. Each part is
  \<open>None\<close> when locating the sub-element or reading it throws (the code catches that and
  leaves the field unset). \<open>el_href\<close> is \<open>Some None\<close> for an anchor without \<open>href\<close>.
\<close>

record result_element =
  el_number :: "string option"
  el_title :: "string option"
  el_abstract :: "string option"
  el_inventors :: "string list option"
  el_date :: "string option"
  el_meta :: "string list option"
  el_href :: "string option option"

text \<open>
  The outside world of one search. \<open>build_ok\<close>: launching the browser succeeds.
  \<open>ppubs\<close> and \<open>gpatents\<close>: for the text typed into the search box of the primary and of the
  secondary site, the result elements located, or \<open>None\<close> when navigation, typing or the
  bounded wait for a results container throws. \<open>axios_get\<close>: for a query, what the GET on
  the external index does: it throws (transport error, status outside 2xx) or answers
  with the body \<open>response.data\<close>.
\<close>

record world =
  build_ok :: bool
  ppubs :: "string \<Rightarrow> result_element list option"
  gpatents :: "string \<Rightarrow> result_element list option"
  axios_get :: "string \<Rightarrow> js_error + json"

text \<open>
  The state of the browser adapter is its driver handle (\<open>True\<close>: a driver is held). The
  state of the service is its configuration, its browser adapter, and the requests it has
  sent to the external index so far.
\<close>

record SeleniumUSPTOService =
  driver :: bool

record SimpleUSPTOService =
  useSelenium :: bool
  seleniumService :: "SeleniumUSPTOService option"
  requests :: "string list"

section \<open>The browser adapter\<close>

text \<open>\<open>initialize\<close> logs and rethrows a failure of the browser launch.\<close>

definition initialize :: "world \<Rightarrow> SeleniumUSPTOService \<Rightarrow> js_error + SeleniumUSPTOService" where
  "initialize w s =
     (if build_ok w then Inr (s\<lparr>driver := True\<rparr>)
      else Inl (Error ''WebDriver session could not be created''))"

definition ensure_driver :: "world \<Rightarrow> SeleniumUSPTOService \<Rightarrow> js_error + SeleniumUSPTOService" where
  "ensure_driver w s = (if \<not> driver s then initialize w s else Inr s)"

definition set_opt :: "string option \<Rightarrow> json" where
  "set_opt t = (case t of None \<Rightarrow> JUndefined | Some s \<Rightarrow> JStr s)"

text \<open>The record extracted from one result element of the primary site.\<close>

definition extractPublic :: "result_element \<Rightarrow> PatentSearchResult" where
  "extractPublic el =
     \<lparr>sr_patentNumber = set_opt (el_number el),
      sr_title = set_opt (el_title el),
      sr_abstract = set_opt (el_abstract el),
      sr_inventors = (case el_inventors el of None \<Rightarrow> JUndefined | Some ns \<Rightarrow> JArr (map JStr ns)),
      sr_applicant = JUndefined,
      sr_filingDate =
        (case el_date el of None \<Rightarrow> JUndefined
         | Some d \<Rightarrow> if includes_str d ''Filed'' then JStr d else JUndefined),
      sr_grantDate =
        (case el_date el of None \<Rightarrow> JUndefined
         | Some d \<Rightarrow> if includes_str d ''Filed'' then JUndefined else JStr d),
      sr_url = JUndefined\<rparr>"

text \<open>
  The metadata spans of a result of the secondary site are read in order; a later span
  overwrites the date an earlier one set.
\<close>

fun metaDates :: "string list \<Rightarrow> json \<times> json \<Rightarrow> json \<times> json" where
  "metaDates [] fg = fg"
| "metaDates (t # ts) (f, g) =
     (if includes_str t ''Filed'' then metaDates ts (JStr t, g)
      else if includes_str t ''Granted'' \<or> includes_str t ''Published'' then metaDates ts (f, JStr t)
      else metaDates ts (f, g))"

definition extractGoogle :: "result_element \<Rightarrow> PatentSearchResult" where
  "extractGoogle el =
     (let fg = (case el_meta el of None \<Rightarrow> (JUndefined, JUndefined)
                | Some ts \<Rightarrow> metaDates ts (JUndefined, JUndefined))
      in \<lparr>sr_patentNumber = set_opt (el_number el),
          sr_title = set_opt (el_title el),
          sr_abstract = set_opt (el_abstract el),
          sr_inventors = JUndefined,
          sr_applicant = JUndefined,
          sr_filingDate = fst fg,
          sr_grantDate = snd fg,
          sr_url = (case el_href el of None \<Rightarrow> JUndefined | Some None \<Rightarrow> JNull
                    | Some (Some h) \<Rightarrow> JStr h)\<rparr>)"

text \<open>
  The extraction loop \<open>for (i = 0; i < Math.min(resultElements.length, limit); i++)\<close>:
  a record is pushed when its number or its title is truthy.
\<close>

definition keep :: "PatentSearchResult \<Rightarrow> bool" where
  "keep patentData = truthy (js_or (sr_patentNumber patentData) (sr_title patentData))"

definition extractLoop ::
  "(result_element \<Rightarrow> PatentSearchResult) \<Rightarrow> result_element list \<Rightarrow> int \<Rightarrow> PatentSearchResult list" where
  "extractLoop extract resultElements limit =
     filter keep (map extract (take (nat (min (int (length resultElements)) limit)) resultElements))"

definition searchPatentsPublic ::
  "world \<Rightarrow> SeleniumUSPTOService \<Rightarrow> string \<Rightarrow> int
     \<Rightarrow> (js_error + PatentSearchResult list) \<times> SeleniumUSPTOService" where
  "searchPatentsPublic w s query limit =
     (case ensure_driver w s of
        Inl e \<Rightarrow> (Inl e, s)
      | Inr s' \<Rightarrow>
          (case ppubs w query of
             None \<Rightarrow> (Inr [], s')
           | Some resultElements \<Rightarrow> (Inr (extractLoop extractPublic resultElements limit), s')))"

definition searchGooglePatents ::
  "world \<Rightarrow> SeleniumUSPTOService \<Rightarrow> string \<Rightarrow> int
     \<Rightarrow> (js_error + PatentSearchResult list) \<times> SeleniumUSPTOService" where
  "searchGooglePatents w s query limit =
     (case ensure_driver w s of
        Inl e \<Rightarrow> (Inl e, s)
      | Inr s' \<Rightarrow>
          (case gpatents w query of
             None \<Rightarrow> (Inr [], s')
           | Some resultElements \<Rightarrow> (Inr (extractLoop extractGoogle resultElements limit), s')))"

definition getMockResults :: "string \<Rightarrow> int \<Rightarrow> PatentSearchResult list" where
  "getMockResults query limit =
     slice0
       [mkPatent ''US11,234,567''
          (''System and Method for '' @ query)
          (''An innovative approach to '' @ query @ '' using advanced techniques.'')
          [''John Smith'', ''Jane Doe''] ''Tech Corp'' ''2023-01-15'' ''2024-06-20''
          ''https://patents.google.com/patent/US11234567'',
        mkPatent ''US11,345,678''
          (query @ '' Processing Framework'')
          (''A comprehensive framework for processing '' @ query @ '' efficiently.'')
          [''Alice Johnson'', ''Bob Wilson''] ''Innovation Inc'' ''2023-03-20'' ''2024-08-15''
          ''https://patents.google.com/patent/US11345678'']
       limit"

text \<open>
  The adapter's main method: the primary site, then the secondary site when the primary
  gave nothing, then the two literal records when the secondary gave nothing either.
\<close>

definition selenium_searchPatents ::
  "world \<Rightarrow> SeleniumUSPTOService \<Rightarrow> string \<Rightarrow> int
     \<Rightarrow> (js_error + PatentSearchResult list) \<times> SeleniumUSPTOService" where
  "selenium_searchPatents w s query limit =
     (case searchPatentsPublic w s query limit of
        (Inl e, s1) \<Rightarrow> (Inl e, s1)
      | (Inr results, s1) \<Rightarrow>
          if length results = 0 then
            (case searchGooglePatents w s1 query limit of
               (Inl e, s2) \<Rightarrow> (Inl e, s2)
             | (Inr results2, s2) \<Rightarrow>
                 if length results2 = 0 then (Inr (getMockResults query limit), s2)
                 else (Inr results2, s2))
          else (Inr results, s1))"

section \<open>The external-index adapter\<close>

text \<open>Sequencing of steps that may throw: the first exception ends the computation.\<close>

definition andThen :: "js_error + 'a \<Rightarrow> ('a \<Rightarrow> js_error + 'b) \<Rightarrow> js_error + 'b" where
  "andThen m f = (case m of Inl e \<Rightarrow> Inl e | Inr x \<Rightarrow> f x)"

fun mapM :: "('a \<Rightarrow> js_error + 'b) \<Rightarrow> 'a list \<Rightarrow> js_error + 'b list" where
  "mapM f [] = Inr []"
| "mapM f (x # xs) = andThen (f x) (\<lambda>y. andThen (mapM f xs) (\<lambda>ys. Inr (y # ys)))"

text \<open>\<open>xs.map(f)\<close> on a value read from the envelope: anything but an array has no \<open>map\<close>.\<close>

definition arrayMap :: "json \<Rightarrow> (json \<Rightarrow> js_error + 'b) \<Rightarrow> js_error + 'b list" where
  "arrayMap v f =
     (case v of JArr xs \<Rightarrow> mapM f xs | _ \<Rightarrow> Inl (TypeError ''map is not a function''))"

text \<open>The callback that turns one element of \<open>results.cluster\<close> into a record.\<close>

definition inventorName :: "json \<Rightarrow> js_error + json" where
  "inventorName inventor = andThen (getprop inventor ''name'') (\<lambda>n. Inr (js_or n (JStr ''Unknown'')))"

definition clusterRecord :: "json \<Rightarrow> js_error + PatentSearchResult" where
  "clusterRecord cluster =
     andThen (getprop cluster ''result'') (\<lambda>r.
     let result = js_or r (JObj []) in
     andThen (getprop result ''patent'') (\<lambda>p.
     let patentInfo = js_or p (JObj []) in
     andThen (getprop patentInfo ''publication_number'') (\<lambda>publication_number.
     andThen (getprop patentInfo ''patent_number'') (\<lambda>patent_number.
     let patentNumber = js_or (js_or publication_number patent_number) (JStr ''N/A'') in
     andThen (getprop result ''title'') (\<lambda>t.
     let title = js_or (getprop_opt t ''text'') (JStr ''Untitled'') in
     andThen (getprop result ''snippet'') (\<lambda>sn.
     let abstract = js_or (getprop_opt sn ''text'') (JStr ''No abstract available'') in
     andThen (getprop patentInfo ''inventor'') (\<lambda>i.
     let inventors = js_or i (JArr []) in
     andThen (arrayMap inventors inventorName) (\<lambda>inventorNames.
     andThen (getprop patentInfo ''assignee'') (\<lambda>a.
     let assignees = js_or a (JArr []) in
     let applicant = js_or (getprop_opt (index0 assignees) ''name'') (JStr ''Not Available'') in
     andThen (getprop patentInfo ''filing_date'') (\<lambda>filing_date.
     andThen (getprop patentInfo ''application_date'') (\<lambda>application_date.
     let filingDate = js_or (js_or filing_date application_date) (JStr ''N/A'') in
     andThen (getprop patentInfo ''grant_date'') (\<lambda>grant_date.
     andThen (getprop patentInfo ''publication_date'') (\<lambda>publication_date.
     let grantDate = js_or (js_or grant_date publication_date) (JStr ''N/A'') in
     andThen (getprop result ''link'') (\<lambda>link.
     let url = js_or link (JStr (''https://patents.google.com/patent/'' @ toString patentNumber)) in
     Inr \<lparr>sr_patentNumber = patentNumber,
          sr_title = title,
          sr_abstract = abstract,
          sr_inventors = (if length inventorNames > 0 then JArr inventorNames
                          else JArr [JStr ''Not listed'']),
          sr_applicant = applicant,
          sr_filingDate = filingDate,
          sr_grantDate = grantDate,
          sr_url = url\<rparr>))))))))))))))"

text \<open>
  The part of the \<open>try\<close> block after the response has arrived: the guard on the envelope,
  \<open>clusters.slice(0, limit).map(...)\<close>, and the empty list when the guard fails.
\<close>

definition processResponse :: "json \<Rightarrow> int \<Rightarrow> js_error + PatentSearchResult list" where
  "processResponse data limit =
     (if truthy data then
        andThen (getprop data ''results'') (\<lambda>results.
        if truthy results then
          andThen (getprop results ''cluster'') (\<lambda>clusters.
          if truthy clusters then
            (case clusters of
               JArr cs \<Rightarrow> mapM clusterRecord (slice0 cs limit)
             | _ \<Rightarrow> Inl (TypeError ''clusters.slice(...).map is not a function''))
          else Inr [])
        else Inr [])
      else Inr [])"

text \<open>
  The body of the \<open>try\<close> block: the guard on the query, the request (recorded in
  \<open>requests\<close>), the processing of the answer.
\<close>

definition googleTry ::
  "world \<Rightarrow> SimpleUSPTOService \<Rightarrow> string \<Rightarrow> int
     \<Rightarrow> (js_error + PatentSearchResult list) \<times> SimpleUSPTOService" where
  "googleTry w svc query limit =
     (if query = [] \<or> trim query = [] then (Inr [], svc)
      else
        (let svc' = svc\<lparr>requests := requests svc @ [query]\<rparr> in
         case axios_get w query of
           Inl e \<Rightarrow> (Inl e, svc')
         | Inr data \<Rightarrow> (processResponse data limit, svc')))"

text \<open>The whole method: whatever the \<open>try\<close> block throws is logged and becomes \<open>[]\<close>.\<close>

definition searchPatentsViaGoogleAPI ::
  "world \<Rightarrow> SimpleUSPTOService \<Rightarrow> string \<Rightarrow> int
     \<Rightarrow> (js_error + PatentSearchResult list) \<times> SimpleUSPTOService" where
  "searchPatentsViaGoogleAPI w svc query limit =
     (case googleTry w svc query limit of
        (Inl e, svc') \<Rightarrow> (Inr [], svc')
      | (Inr patents, svc') \<Rightarrow> (Inr patents, svc'))"

section \<open>The static fallback data\<close>

definition aiPatents :: "PatentSearchResult list" where
  "aiPatents =
     [mkPatent ''US11,521,063''
        ''Artificial Intelligence System for Predictive Analysis''
        ''A system and method for using artificial intelligence and machine learning algorithms to perform predictive analysis on large datasets with improved accuracy and reduced computational requirements.''
        [''Sarah Chen'', ''Michael Rodriguez''] ''DeepMind Technologies Limited''
        ''2021-03-15'' ''2022-12-06'' ''https://patents.google.com/patent/US11521063'',
      mkPatent ''US11,487,936''
        ''Natural Language Processing Using Transformer Architecture''
        ''Methods and systems for natural language understanding using transformer-based neural networks with attention mechanisms for improved context understanding.''
        [''Emily Zhang'', ''David Kumar''] ''OpenAI, Inc.''
        ''2020-09-22'' ''2022-11-01'' ''https://patents.google.com/patent/US11487936'',
      mkPatent ''US11,423,678''
        ''Computer Vision System for Object Detection''
        ''An improved computer vision system utilizing convolutional neural networks for real-time object detection and classification in video streams.''
        [''James Park'', ''Lisa Thompson''] ''Google LLC''
        ''2021-01-10'' ''2022-08-23'' ''https://patents.google.com/patent/US11423678'']"

definition blockchainPatents :: "PatentSearchResult list" where
  "blockchainPatents =
     [mkPatent ''US11,456,789''
        ''Blockchain-Based Smart Contract System''
        ''A distributed ledger system implementing smart contracts with improved gas efficiency and enhanced security features.''
        [''Satoshi Yamamoto'', ''Wei Lin''] ''Ethereum Foundation''
        ''2020-11-30'' ''2022-09-15'' ''https://patents.google.com/patent/US11456789'',
      mkPatent ''US11,398,234''
        ''Cryptocurrency Wallet with Multi-Signature Security''
        ''A secure cryptocurrency wallet system implementing multi-signature authentication and cold storage capabilities.''
        [''Marcus Johnson'', ''Anna Kowalski''] ''Coinbase Global, Inc.''
        ''2021-02-28'' ''2022-07-26'' ''https://patents.google.com/patent/US11398234'']"

definition quantumPatents :: "PatentSearchResult list" where
  "quantumPatents =
     [mkPatent ''US11,567,890''
        ''Quantum Computing Error Correction System''
        ''Methods for quantum error correction using topological codes to maintain quantum coherence in superconducting qubit systems.''
        [''Robert Quantum'', ''Marie Curie''] ''IBM Corporation''
        ''2020-07-15'' ''2023-01-10'' ''https://patents.google.com/patent/US11567890'',
      mkPatent ''US11,445,123''
        ''Quantum Cryptography Communication System''
        ''A quantum key distribution system using entangled photons for secure communication channels.''
        [''Alice Quantum'', ''Bob Crypto''] ''Microsoft Technology Licensing, LLC''
        ''2021-04-20'' ''2022-09-13'' ''https://patents.google.com/patent/US11445123'']"

definition genericPatents :: "string \<Rightarrow> PatentSearchResult list" where
  "genericPatents query =
     [mkPatent ''US11,234,567''
        (''System and Method for '' @ query)
        (''An innovative approach to '' @ query @ '' that provides improved efficiency, scalability, and performance through novel algorithmic techniques.'')
        [''John Smith'', ''Jane Doe''] ''Tech Innovations Inc.''
        ''2021-06-15'' ''2023-03-20'' ''https://patents.google.com/patent/US11234567'',
      mkPatent ''US11,345,678''
        (''Advanced '' @ query @ '' Processing System'')
        (''A comprehensive system for processing and analyzing '' @ query @ '' using state-of-the-art techniques and methodologies.'')
        [''Alice Johnson'', ''Bob Wilson''] ''Innovation Labs LLC''
        ''2020-12-01'' ''2022-11-15'' ''https://patents.google.com/patent/US11345678'',
      mkPatent ''US11,456,789''
        (query @ '' Optimization Framework'')
        (''A framework for optimizing '' @ query @ '' operations with reduced computational complexity and improved resource utilization.'')
        [''Charlie Brown'', ''Diana Prince''] ''Research Corporation''
        ''2021-08-30'' ''2023-02-10'' ''https://patents.google.com/patent/US11456789'']"

definition getMockPatentResults :: "string \<Rightarrow> PatentSearchResult list" where
  "getMockPatentResults query =
     (let queryLower = toLowerCase query in
      if includes_str queryLower ''artificial intelligence'' \<or> includes_str queryLower ''ai''
        then aiPatents
      else if includes_str queryLower ''blockchain'' \<or> includes_str queryLower ''crypto''
        then blockchainPatents
      else if includes_str queryLower ''quantum''
        then quantumPatents
      else genericPatents query)"

definition getMockTrademarkResults :: "string \<Rightarrow> TrademarkSearchResult list" where
  "getMockTrademarkResults query =
     [\<lparr>ts_serialNumber = Some ''88/123,456'',
       ts_registrationNumber = Some ''5,123,456'',
       ts_mark = Some (toUpperCase query),
       ts_owner = Some ''Example Corporation'',
       ts_filingDate = Some ''2023-02-10'',
       ts_status = Some ''REGISTERED'',
       ts_url = Some ''https://tsdr.uspto.gov/#caseNumber=88123456''\<rparr>,
      \<lparr>ts_serialNumber = Some ''88/234,567'',
       ts_registrationNumber = None,
       ts_mark = Some (toUpperCase query @ map of_char '' PLUS''),
       ts_owner = Some ''Innovation Brands LLC'',
       ts_filingDate = Some ''2023-04-15'',
       ts_status = Some ''PENDING'',
       ts_url = Some ''https://tsdr.uspto.gov/#caseNumber=88234567''\<rparr>]"

section \<open>The search service's entry points\<close>

text \<open>
  The first step of \<open>searchPatents\<close>: when the browser adapter is enabled it is tried inside
  \<open>try\<close>/\<open>catch\<close>; \<open>Some\<close> results end the search, \<open>None\<close> means go on (the adapter
  is disabled, it threw, or it returned no record).
\<close>

definition trySelenium ::
  "world \<Rightarrow> SimpleUSPTOService \<Rightarrow> string \<Rightarrow> int
     \<Rightarrow> PatentSearchResult list option \<times> SimpleUSPTOService" where
  "trySelenium w svc query limit =
     (if useSelenium svc then
        (case seleniumService svc of
           None \<Rightarrow> (None, svc)
         | Some sel \<Rightarrow>
             (case selenium_searchPatents w sel query limit of
                (Inl e, sel') \<Rightarrow> (None, svc\<lparr>seleniumService := Some sel'\<rparr>)
              | (Inr seleniumResults, sel') \<Rightarrow>
                  (if length seleniumResults > 0 then Some seleniumResults else None,
                   svc\<lparr>seleniumService := Some sel'\<rparr>)))
      else (None, svc))"

text \<open>
  \<open>searchPatents\<close> awaits the external-index adapter outside any \<open>try\<close>: an exception
  from it would leave \<open>searchPatents\<close> as it is.
\<close>

definition searchPatents ::
  "world \<Rightarrow> SimpleUSPTOService \<Rightarrow> string \<Rightarrow> int
     \<Rightarrow> (js_error + PatentSearchResult list) \<times> SimpleUSPTOService" where
  "searchPatents w svc query limit =
     (case trySelenium w svc query limit of
        (Some seleniumResults, svc1) \<Rightarrow> (Inr seleniumResults, svc1)
      | (None, svc1) \<Rightarrow>
          (case searchPatentsViaGoogleAPI w svc1 query limit of
             (Inl e, svc2) \<Rightarrow> (Inl e, svc2)
           | (Inr googleResults, svc2) \<Rightarrow>
               if length googleResults > 0 then (Inr googleResults, svc2)
               else (Inr (getMockPatentResults query), svc2)))"

text \<open>
  \<open>searchTrademarks\<close> returns the literal records from its \<open>try\<close> block, and the same
  from its \<open>catch\<close>.
\<close>

definition searchTrademarks ::
  "world \<Rightarrow> SimpleUSPTOService \<Rightarrow> string \<Rightarrow> int
     \<Rightarrow> (js_error + TrademarkSearchResult list) \<times> SimpleUSPTOService" where
  "searchTrademarks w svc query limit = (Inr (getMockTrademarkResults query), svc)"

text \<open>
  The browser adapter gave the search nothing: it is disabled, or it threw, or it
  returned no record.
\<close>

definition browserAdapterGaveNothing ::
  "world \<Rightarrow> SimpleUSPTOService \<Rightarrow> string \<Rightarrow> int \<Rightarrow> bool" where
  "browserAdapterGaveNothing w svc query limit =
     (case seleniumService svc of
        None \<Rightarrow> True
      | Some sel \<Rightarrow>
          \<not> useSelenium svc
          \<or> (case fst (selenium_searchPatents w sel query limit) of
                Inl e \<Rightarrow> True
              | Inr results \<Rightarrow> results = []))"

section \<open>The delegated-extraction service\<close>

datatype ExtractionStrategy = Llm | Css | Xpath | Auto

record Crawl4AIConfig =
  baseUrl :: "string option"
  timeout :: "nat option"
  maxRetries :: "nat option"
  userAgent :: "string option"
  headless :: "bool option"
  waitForSelector :: "string option"
  extractionStrategy :: "ExtractionStrategy option"
  llmProvider :: "string option"
  llmModel :: "string option"

record CrawlResult =
  cr_url :: string
  cr_title :: "string option"
  cr_content :: "string option"
  markdown :: "string option"
  links :: "string list option"
  images :: "string list option"
  metadata :: "(string \<times> string) list option"
  extractedData :: "string option"
  success :: bool
  error :: "string option"

text \<open>The JSON object the extraction process prints, after \<open>JSON.parse\<close>.\<close>

record process_output =
  out_success :: bool
  out_title :: "string option"
  out_content :: "string option"
  out_markdown :: "string option"
  out_links :: "string list option"
  out_images :: "string list option"
  out_metadata :: "(string \<times> string) list option"
  out_extracted_data :: "string option"
  out_error :: "string option"

text \<open>
  The outside world of the service. \<open>pip_show\<close>, \<open>pip_install\<close>: the command succeeds.
  \<open>python_run\<close>: for a URL and a configuration, the extraction process either fails with
  a message (non-zero exit, timeout, output that is not JSON) or prints an object.
\<close>

record crawl_world =
  pip_show :: bool
  pip_install :: bool
  python_run :: "string \<Rightarrow> Crawl4AIConfig \<Rightarrow> string + process_output"

text \<open>Observable effects: a process launched for a URL, a pause in milliseconds.\<close>

datatype event = Exec string | Delay nat

record Crawl4AIService =
  config :: Crawl4AIConfig
  isInitialized :: bool
  trace :: "event list"

definition defaultConfig :: Crawl4AIConfig where
  "defaultConfig =
     \<lparr>baseUrl = Some ''https://www.uspto.gov'',
      timeout = Some 30000,
      maxRetries = Some 3,
      userAgent = Some ''Mozilla/5.0 (compatible; USPTO-Crawler/0.2; +https://github.com/yobieben/uspto-crawler)'',
      headless = Some True,
      waitForSelector = None,
      extractionStrategy = Some Auto,
      llmProvider = Some ''openai'',
      llmModel = Some ''gpt-4''\<rparr>"

text \<open>
  The options of a call are a \<open>Partial<Crawl4AIConfig>\<close>: a key is absent (\<open>None\<close>), or
  present with the value \<open>undefined\<close> (\<open>Some None\<close>), or present with a value.
\<close>

record Crawl4AIOptions =
  opt_baseUrl :: "string option option"
  opt_timeout :: "nat option option"
  opt_maxRetries :: "nat option option"
  opt_userAgent :: "string option option"
  opt_headless :: "bool option option"
  opt_waitForSelector :: "string option option"
  opt_extractionStrategy :: "ExtractionStrategy option option"
  opt_llmProvider :: "string option option"
  opt_llmModel :: "string option option"

definition noOptions :: Crawl4AIOptions where
  "noOptions =
     \<lparr>opt_baseUrl = None, opt_timeout = None, opt_maxRetries = None, opt_userAgent = None,
      opt_headless = None, opt_waitForSelector = None, opt_extractionStrategy = None,
      opt_llmProvider = None, opt_llmModel = None\<rparr>"

text \<open>
  \<open>{ ...a, ...b }\<close>: every key present in \<open>b\<close> replaces the field of \<open>a\<close>, also when its
  value is \<open>undefined\<close>.
\<close>

definition over :: "'a option \<Rightarrow> 'a option option \<Rightarrow> 'a option" where
  "over a b = (case b of None \<Rightarrow> a | Some v \<Rightarrow> v)"

definition spread :: "Crawl4AIConfig \<Rightarrow> Crawl4AIOptions \<Rightarrow> Crawl4AIConfig" where
  "spread a b =
     \<lparr>baseUrl = over (baseUrl a) (opt_baseUrl b),
      timeout = over (timeout a) (opt_timeout b),
      maxRetries = over (maxRetries a) (opt_maxRetries b),
      userAgent = over (userAgent a) (opt_userAgent b),
      headless = over (headless a) (opt_headless b),
      waitForSelector = over (waitForSelector a) (opt_waitForSelector b),
      extractionStrategy = over (extractionStrategy a) (opt_extractionStrategy b),
      llmProvider = over (llmProvider a) (opt_llmProvider b),
      llmModel = over (llmModel a) (opt_llmModel b)\<rparr>"

definition newCrawl4AIService :: "Crawl4AIOptions \<Rightarrow> Crawl4AIService" where
  "newCrawl4AIService c = \<lparr>config = spread defaultConfig c, isInitialized = False, trace = []\<rparr>"

definition checkAndInstallCrawl4AI :: "crawl_world \<Rightarrow> js_error + unit" where
  "checkAndInstallCrawl4AI w =
     (if pip_show w then Inr ()
      else if pip_install w then Inr ()
      else Inl (Error ''Please install Crawl4AI manually: pip install crawl4ai''))"

text \<open>
  \<open>verifyCrawl4AI\<close> runs the command \<open>python3 -c "${testScript}"\<close> through the shell.
  \<open>testScript\<close> is the text of the template literal; it holds two double quotes of its
  own, around the URL of the test page.
\<close>

definition doubleQuote :: char where
  "doubleQuote = CHR 0x22"

definition lineFeed :: char where
  "lineFeed = CHR 0x0A"

definition testScript :: string where
  "testScript =
     concat (map (\<lambda>line. lineFeed # line)
       [''import asyncio'',
        ''from crawl4ai import AsyncWebCrawler'',
        '''',
        ''async def test():'',
        ''    async with AsyncWebCrawler() as crawler:'',
        ''        result = await crawler.arun(url='' @ [doubleQuote]
            @ ''https://www.example.com'' @ [doubleQuote] @ '')'',
        ''        return result.success'',
        '''',
        ''print(asyncio.run(test()))'']) @ [lineFeed]"

text \<open>
  In the command line the first double quote of the script ends the quoted text that the
  command opened, and the second one opens it again. Between the two stands only
  \<open>https://www.example.com\<close>, which has no blank and no shell operator, and the script
  has no dollar sign, backquote or backslash: the shell hands the whole to \<open>python3\<close> as
  one argument, with the double quotes removed. \<open>shellArgument\<close> is that argument.
\<close>

definition shellArgument :: "string \<Rightarrow> string" where
  "shellArgument script = filter (\<lambda>c. c \<noteq> doubleQuote) script"

text \<open>
  The argument reads \<open>crawler.arun(url=https://www.example.com)\<close>, which is not Python:
  \<open>python3\<close> reports a SyntaxError before it imports anything and exits with status 1,
  on every machine that has it, and the command fails as well where it is missing. So
  \<open>execAsync\<close> rejects, the comparison of the output with \<open>True\<close> is never reached, and
  \<open>verifyCrawl4AI\<close> logs and rethrows (the message is shortened here).
\<close>

definition verifyCrawl4AI :: "crawl_world \<Rightarrow> js_error + unit" where
  "verifyCrawl4AI w = Inl (Error ''Command failed: python3 -c (SyntaxError: invalid syntax)'')"

text \<open>
  \<open>initialize\<close> sets \<open>isInitialized\<close> after both steps; a failure of either is logged
  and rethrown.
\<close>

definition crawl4ai_initialize :: "crawl_world \<Rightarrow> Crawl4AIService \<Rightarrow> js_error + Crawl4AIService" where
  "crawl4ai_initialize w svc =
     andThen (checkAndInstallCrawl4AI w) (\<lambda>_.
     andThen (verifyCrawl4AI w) (\<lambda>_.
     Inr (svc\<lparr>isInitialized := True\<rparr>)))"

text \<open>
  \<open>crawl\<close>: the initialisation is awaited before the \<open>try\<close> block, so its failure leaves
  \<open>crawl\<close> as an exception. \<open>toCrawlResult\<close> is the \<open>try\<close> block with its \<open>catch\<close>: a
  failure of the extraction process becomes a result with \<open>success = false\<close>.
\<close>

definition toCrawlResult :: "string \<Rightarrow> string + process_output \<Rightarrow> CrawlResult" where
  "toCrawlResult url out =
     (case out of
        Inl msg \<Rightarrow>
          \<lparr>cr_url = url, cr_title = None, cr_content = None, markdown = None,
           links = None, images = None, metadata = None, extractedData = None,
           success = False, error = Some msg\<rparr>
      | Inr result \<Rightarrow>
          \<lparr>cr_url = url, cr_title = out_title result, cr_content = out_content result,
           markdown = out_markdown result, links = out_links result,
           images = out_images result, metadata = out_metadata result,
           extractedData = out_extracted_data result,
           success = out_success result, error = out_error result\<rparr>)"

definition crawl ::
  "crawl_world \<Rightarrow> Crawl4AIService \<Rightarrow> string \<Rightarrow> Crawl4AIOptions
     \<Rightarrow> (js_error + CrawlResult) \<times> Crawl4AIService" where
  "crawl w svc url options =
     (case (if \<not> isInitialized svc then crawl4ai_initialize w svc else Inr svc) of
        Inl e \<Rightarrow> (Inl e, svc)
      | Inr svc1 \<Rightarrow>
          (let cfg = spread (config svc1) options;
               svc2 = svc1\<lparr>trace := trace svc1 @ [Exec url]\<rparr>
           in (Inr (toCrawlResult url (python_run w url cfg)), svc2)))"

definition delay :: "nat \<Rightarrow> Crawl4AIService \<Rightarrow> Crawl4AIService" where
  "delay ms svc = svc\<lparr>trace := trace svc @ [Delay ms]\<rparr>"

text \<open>
  \<open>Promise.all(batch.map(url => this.crawl(url, options)))\<close>: the results come in the
  order of the batch, and one rejected crawl rejects the whole. The crawls of a batch
  are started together; the model runs them in the order of the batch.
\<close>

fun crawlBatch ::
  "crawl_world \<Rightarrow> Crawl4AIService \<Rightarrow> string list \<Rightarrow> Crawl4AIOptions
     \<Rightarrow> (js_error + CrawlResult list) \<times> Crawl4AIService" where
  "crawlBatch w svc [] options = (Inr [], svc)"
| "crawlBatch w svc (url # batch) options =
     (case crawl w svc url options of
        (Inl e, svc1) \<Rightarrow> (Inl e, svc1)
      | (Inr r, svc1) \<Rightarrow>
          (case crawlBatch w svc1 batch options of
             (Inl e, svc2) \<Rightarrow> (Inl e, svc2)
           | (Inr rs, svc2) \<Rightarrow> (Inr (r # rs), svc2)))"

definition batchSize :: nat where
  "batchSize = 5"

text \<open>The loop \<open>for (let i = 0; i < urls.length; i += batchSize)\<close> of \<open>crawlMultiple\<close>.\<close>

function crawlLoop ::
  "crawl_world \<Rightarrow> string list \<Rightarrow> Crawl4AIOptions \<Rightarrow> nat \<Rightarrow> CrawlResult list \<Rightarrow> Crawl4AIService
     \<Rightarrow> (js_error + CrawlResult list) \<times> Crawl4AIService" where
  "crawlLoop w urls options i results svc =
     (if i < length urls then
        (case crawlBatch w svc (take batchSize (drop i urls)) options of
           (Inl e, svc1) \<Rightarrow> (Inl e, svc1)
         | (Inr batchResults, svc1) \<Rightarrow>
             crawlLoop w urls options (i + batchSize) (results @ batchResults)
               (if i + batchSize < length urls then delay 1000 svc1 else svc1))
      else (Inr results, svc))"
  by pat_completeness auto
termination
  by (relation "measure (\<lambda>(w, urls, options, i, results, svc). length urls - i)")
     (auto simp: batchSize_def)

declare crawlLoop.simps [simp del]

definition crawlMultiple ::
  "crawl_world \<Rightarrow> Crawl4AIService \<Rightarrow> string list \<Rightarrow> Crawl4AIOptions
     \<Rightarrow> (js_error + CrawlResult list) \<times> Crawl4AIService" where
  "crawlMultiple w svc urls options = crawlLoop w urls options 0 [] svc"

text \<open>
  For comparison: a list cut into consecutive pieces of \<open>n\<close> elements (the last piece may
  be shorter), and the effects of crawling such pieces with a pause of one second between
  one piece and the next.
\<close>

function chunks :: "nat \<Rightarrow> 'a list \<Rightarrow> 'a list list" where
  "chunks n xs = (if n = 0 \<or> xs = [] then [] else take n xs # chunks n (drop n xs))"
  by pat_completeness auto
termination
  by (relation "measure (\<lambda>(n, xs). length xs)") auto

declare chunks.simps [simp del]

fun batchTrace :: "string list list \<Rightarrow> event list" where
  "batchTrace [] = []"
| "batchTrace [b] = map Exec b"
| "batchTrace (b # b' # bs) = map Exec b @ [Delay 1000] @ batchTrace (b' # bs)"

section \<open>The content classifier\<close>

definition identifyUSPTOContent :: "CrawlResult \<Rightarrow> string" where
  "identifyUSPTOContent crawlResult =
     (let content = toLowerCase (or_default (cr_content crawlResult) '''');
          title = toLowerCase (or_default (cr_title crawlResult) '''')
      in if includes_str content ''patent'' \<or> includes_str title ''patent'' then
           (if includes_str content ''application'' then ''patent-application''
            else if includes_str content ''grant'' then ''patent-grant''
            else ''patent-general'')
         else if includes_str content ''trademark'' \<or> includes_str title ''trademark'' then
           (if includes_str content ''registration'' then ''trademark-registration''
            else if includes_str content ''application'' then ''trademark-application''
            else ''trademark-general'')
         else if includes_str content ''ptab'' \<or> includes_str content ''trial and appeal'' then
           ''ptab-decision''
         else ''general'')"

text \<open>
  The classifier as the specification words it, for comparison: every keyword is looked
  for in the lower-cased title and content together, and the first type of the priority
  list whose keywords are all mentioned is returned.
\<close>

definition mentions :: "CrawlResult \<Rightarrow> string \<Rightarrow> bool" where
  "mentions crawlResult keyword =
     (includes_str (toLowerCase (or_default (cr_title crawlResult) '''')) keyword
      \<or> includes_str (toLowerCase (or_default (cr_content crawlResult) '''')) keyword)"

definition spec_classifier :: "CrawlResult \<Rightarrow> string" where
  "spec_classifier r =
     (if mentions r ''patent'' \<and> mentions r ''application'' then ''patent-application''
      else if mentions r ''patent'' \<and> mentions r ''grant'' then ''patent-grant''
      else if mentions r ''patent'' then ''patent-general''
      else if mentions r ''trademark'' \<and> mentions r ''registration'' then ''trademark-registration''
      else if mentions r ''trademark'' \<and> mentions r ''application'' then ''trademark-application''
      else if mentions r ''trademark'' then ''trademark-general''
      else if mentions r ''ptab'' \<or> mentions r ''trial and appeal'' then ''ptab-decision''
      else ''general'')"

section \<open>Constructors and sample environments\<close>

text \<open>
  The service as its constructor leaves it; the argument is whether the environment
  variable \<open>USE_SELENIUM\<close> is \<open>true\<close>.
\<close>

definition newSeleniumUSPTOService :: SeleniumUSPTOService where
  "newSeleniumUSPTOService = \<lparr>driver = False\<rparr>"

definition newSimpleUSPTOService :: "bool \<Rightarrow> SimpleUSPTOService" where
  "newSimpleUSPTOService use =
     \<lparr>useSelenium = use,
      seleniumService = (if use then Some newSeleniumUSPTOService else None),
      requests = []\<rparr>"

text \<open>A machine without a browser and without network.\<close>

definition offlineWorld :: world where
  "offlineWorld =
     \<lparr>build_ok = False, ppubs = (\<lambda>q. None), gpatents = (\<lambda>q. None),
      axios_get = (\<lambda>q. Inl (Error ''Network Error''))\<rparr>"

text \<open>
  The browser starts, but the wait for a results container times out on both sites; the
  external index is unreachable.
\<close>

definition timeoutWorld :: world where
  "timeoutWorld =
     \<lparr>build_ok = True, ppubs = (\<lambda>q. None), gpatents = (\<lambda>q. None),
      axios_get = (\<lambda>q. Inl (Error ''Network Error''))\<rparr>"

text \<open>
  An answer of the external index in the format the repository documents
  (\<open>results.cluster[i].result[j].patent\<close>): two clusters, the first with two results, the
  second with one, titles with markup.
\<close>

definition documentedResult :: "string \<Rightarrow> string \<Rightarrow> string \<Rightarrow> json" where
  "documentedResult ident number ttl =
     JObj [(''id'', JStr ident), (''rank'', JNum ''0''),
           (''patent'', JObj [(''title'', JStr ttl), (''publication_number'', JStr number)])]"

definition documentedEnvelope :: json where
  "documentedEnvelope =
     JObj [(''results'',
       JObj [(''total_num_results'', JNum ''3''),
             (''cluster'',
               JArr [JObj [(''result'',
                       JArr [documentedResult ''patent/US11074495B2/en'' ''US11074495B2''
                               ''System for <b>artificial</b> <b>intelligence</b>'',
                             documentedResult ''patent/US10000002B2/en'' ''US10000002B2''
                               ''<b>Artificial</b> <b>intelligence</b> engine''])],
                     JObj [(''result'',
                       JArr [documentedResult ''patent/US10000003B2/en'' ''US10000003B2''
                               ''Learning &amp; <b>intelligence</b>''])]])])]"

text \<open>
  An answer in the shape the adapter reads (\<open>cluster.result\<close> an object with
  \<open>title.text\<close> and \<open>patent\<close>), one cluster, the title with markup.
\<close>

definition objectEnvelope :: json where
  "objectEnvelope =
     JObj [(''results'',
       JObj [(''cluster'',
               JArr [JObj [(''result'',
                       JObj [(''title'', JObj [(''text'', JStr ''<b>AI</b> &amp; robots'')]),
                             (''patent'', JObj [(''publication_number'', JStr ''US1'')])])]])])]"

definition indexWorld :: "json \<Rightarrow> world" where
  "indexWorld body =
     \<lparr>build_ok = False, ppubs = (\<lambda>q. None), gpatents = (\<lambda>q. None),
      axios_get = (\<lambda>q. Inr body)\<rparr>"

definition notAvailableRecord :: PatentSearchResult where
  "notAvailableRecord =
     \<lparr>sr_patentNumber = JStr ''N/A'', sr_title = JStr ''Untitled'',
      sr_abstract = JStr ''No abstract available'', sr_inventors = JArr [JStr ''Not listed''],
      sr_applicant = JStr ''Not Available'', sr_filingDate = JStr ''N/A'',
      sr_grantDate = JStr ''N/A'', sr_url = JStr ''https://patents.google.com/patent/N/A''\<rparr>"

text \<open>
  A crawl environment in which the extraction tool is installed and every extraction
  process would print an object.
\<close>

definition noOutput :: process_output where
  "noOutput =
     \<lparr>out_success = True, out_title = None, out_content = None, out_markdown = None,
      out_links = None, out_images = None, out_metadata = None, out_extracted_data = None,
      out_error = None\<rparr>"

definition installedCrawlWorld :: crawl_world where
  "installedCrawlWorld =
     \<lparr>pip_show = True, pip_install = True,
      python_run = (\<lambda>u c. Inr (noOutput\<lparr>out_title := Some u\<rparr>))\<rparr>"

definition pageResult :: "string \<Rightarrow> string \<Rightarrow> CrawlResult" where
  "pageResult ttl body =
     \<lparr>cr_url = ''https://www.uspto.gov/'', cr_title = Some ttl, cr_content = Some body,
      markdown = None, links = None, images = None, metadata = None, extractedData = None,
      success = True, error = None\<rparr>"

definition sevenUrls :: "string list" where
  "sevenUrls = [''u1'', ''u2'', ''u3'', ''u4'', ''u5'', ''u6'', ''u7'']"

text \<open>Two reports of one patent, with different titles, and a report of another.\<close>

definition patentReport :: "string \<Rightarrow> string \<Rightarrow> PatentResult" where
  "patentReport number ttl =
     \<lparr>patentNumber = Some number, applicationNumber = None, pr_title = Some ttl,
      pr_abstract = None, pr_inventors = None, pr_applicant = None, pr_assignee = None,
      pr_filingDate = None, pr_grantDate = None, pr_status = None, pr_classification = None,
      pr_claims = None, pr_url = None, pdfUrl = None\<rparr>"

section \<open>Deduplication keeps the first record of every key\<close>

lemma filter_seen_keys_fresh:
  "set (map key (filter_seen key seen xs)) \<inter> seen = {}"
  by (induction xs arbitrary: seen) auto

lemma filter_seen_distinct: "distinct (map key (filter_seen key seen xs))"
proof (induction xs arbitrary: seen)
  case Nil
  show ?case by simp
next
  case (Cons x xs)
  have "key x \<notin> set (map key (filter_seen key (insert (key x) seen) xs))"
    using filter_seen_keys_fresh [of key "insert (key x) seen" xs] by auto
  with Cons show ?case by simp
qed

lemma filter_seen_subseq: "subseq (filter_seen key seen xs) xs"
  by (induction xs arbitrary: seen) auto

lemma filter_seen_first:
  "filter (\<lambda>x. key x = k) (filter_seen key seen xs) =
     (if k \<in> seen then [] else take 1 (filter (\<lambda>x. key x = k) xs))"
proof (induction xs arbitrary: seen)
  case Nil
  show ?case by simp
next
  case (Cons x xs)
  show ?case
  proof (cases "key x \<in> seen")
    case True
    with Cons show ?thesis by auto
  next
    case False
    with Cons show ?thesis by auto
  qed
qed

lemma patentKey_priority:
  "patentKey p =
     (if truthy_str (patentNumber p) then the (patentNumber p)
      else if truthy_str (applicationNumber p) then the (applicationNumber p)
      else [])"
  by (auto simp: patentKey_def or_else_def or_default_def truthy_str_def split: option.splits)

lemma trademarkKey_priority:
  "trademarkKey t =
     (if truthy_str (serialNumber t) then the (serialNumber t)
      else if truthy_str (registrationNumber t) then the (registrationNumber t)
      else [])"
  by (auto simp: trademarkKey_def or_else_def or_default_def truthy_str_def split: option.splits)

text \<open>
  The filter, by positions: the record at position \<open>i\<close> is kept exactly when its key is
  not in the starting set and is not the key of a record at an earlier position.
\<close>

lemma filter_seen_positions:
  "filter_seen key seen xs =
     map (nth xs)
       (filter (\<lambda>i. key (xs ! i) \<notin> seen \<union> set (map key (take i xs))) [0..<length xs])"
proof (induction xs arbitrary: seen)
  case Nil
  show ?case by simp
next
  case (Cons x xs)
  have "[0..<Suc (length xs)] = 0 # [Suc 0..<Suc (length xs)]"
    by (rule upt_conv_Cons) simp
  moreover have "map Suc [0..<length xs] = [Suc 0..<Suc (length xs)]"
    by (rule map_Suc_upt)
  ultimately have upt: "[0..<length (x # xs)] = 0 # map Suc [0..<length xs]"
    by (simp only: length_Cons)
  have shift: "map (nth (x # xs)) (filter P (map Suc js)) = map (nth xs) (filter (P \<circ> Suc) js)"
    for P js
    by (induction js) auto
  show ?case
  proof (cases "key x \<in> seen")
    case True
    then have same: "insert (key x) seen = seen" by auto
    have earlier: "(k \<notin> seen \<and> k \<noteq> key x \<and> Q) = (k \<notin> seen \<and> Q)" for k Q
      using True by auto
    show ?thesis
      unfolding upt using True
      by (simp add: shift comp_def Cons.IH [of seen] same earlier)
  next
    case False
    show ?thesis
      unfolding upt using False
      by (simp add: shift comp_def Cons.IH [of "insert (key x) seen"] conj_ac)
  qed
qed

lemma patentKey_cases:
  "patentKey =
     (\<lambda>p. case patentNumber p of
             Some (c # s) \<Rightarrow> c # s
           | _ \<Rightarrow> (case applicationNumber p of Some (c # s) \<Rightarrow> c # s | _ \<Rightarrow> []))"
  by (rule ext)
     (simp add: patentKey_def or_else_def or_default_def truthy_str_def
        split: option.splits list.splits)

lemma trademarkKey_cases:
  "trademarkKey =
     (\<lambda>t. case serialNumber t of
             Some (c # s) \<Rightarrow> c # s
           | _ \<Rightarrow> (case registrationNumber t of Some (c # s) \<Rightarrow> c # s | _ \<Rightarrow> []))"
  by (rule ext)
     (simp add: trademarkKey_def or_else_def or_default_def truthy_str_def
        split: option.splits list.splits)

lemma filter_seen_summary:
  "filter_seen key {} xs =
       map (nth xs) (filter (\<lambda>i. key (xs ! i) \<notin> set (map key (take i xs))) [0..<length xs])
   \<and> distinct (map key (filter_seen key {} xs))
   \<and> subseq (filter_seen key {} xs) xs
   \<and> (\<forall>k. filter (\<lambda>x. key x = k) (filter_seen key {} xs)
            = take 1 (filter (\<lambda>x. key x = k) xs))"
proof (intro conjI allI)
  show "filter_seen key {} xs =
       map (nth xs) (filter (\<lambda>i. key (xs ! i) \<notin> set (map key (take i xs))) [0..<length xs])"
    using filter_seen_positions [of key "{}" xs] by simp
  show "distinct (map key (filter_seen key {} xs))"
    by (rule filter_seen_distinct)
  show "subseq (filter_seen key {} xs) xs"
    by (rule filter_seen_subseq)
  show "filter (\<lambda>x. key x = k) (filter_seen key {} xs) = take 1 (filter (\<lambda>x. key x = k) xs)"
    for k
    using filter_seen_first [of key k "{}" xs] by simp
qed

text \<open>
  C3. The key of a patent record is its \<open>patentNumber\<close> when that is a non-empty string,
  else its \<open>applicationNumber\<close> when that is a non-empty string, else the empty string; the
  key of a trademark record is built in the same way from its \<open>serialNumber\<close> and its
  \<open>registrationNumber\<close>. The deduplicated list consists of the records at exactly those
  positions of the input whose key is not the key of a record at an earlier position,
  taken in the order of the positions. So no two records of the result have the same
  key, the result is a subsequence of the input, and for every key the records of that
  key in the result are the first record of that key in the input and no other.
\<close>

theorem deduplicate_first_occurrence_stable:
  "(let key = (\<lambda>p. case patentNumber p of
                      Some (c # s) \<Rightarrow> c # s
                    | _ \<Rightarrow> (case applicationNumber p of Some (c # s) \<Rightarrow> c # s | _ \<Rightarrow> []))
    in deduplicatePatents ps =
         map (nth ps) (filter (\<lambda>i. key (ps ! i) \<notin> set (map key (take i ps))) [0..<length ps])
     \<and> distinct (map key (deduplicatePatents ps))
     \<and> subseq (deduplicatePatents ps) ps
     \<and> (\<forall>k. filter (\<lambda>p. key p = k) (deduplicatePatents ps)
              = take 1 (filter (\<lambda>p. key p = k) ps)))
   \<and> (let key = (\<lambda>t. case serialNumber t of
                      Some (c # s) \<Rightarrow> c # s
                    | _ \<Rightarrow> (case registrationNumber t of Some (c # s) \<Rightarrow> c # s | _ \<Rightarrow> []))
      in deduplicateTrademarks ts =
           map (nth ts) (filter (\<lambda>i. key (ts ! i) \<notin> set (map key (take i ts))) [0..<length ts])
       \<and> distinct (map key (deduplicateTrademarks ts))
       \<and> subseq (deduplicateTrademarks ts) ts
       \<and> (\<forall>k. filter (\<lambda>t. key t = k) (deduplicateTrademarks ts)
                = take 1 (filter (\<lambda>t. key t = k) ts)))"
  unfolding patentKey_cases [symmetric] trademarkKey_cases [symmetric]
  unfolding Let_def deduplicatePatents_def deduplicateTrademarks_def
  using filter_seen_summary [of patentKey ps] filter_seen_summary [of trademarkKey ts]
  by blast

text \<open>
  Two sources report the patent US11234567 under different titles: the report met first
  survives.
\<close>

lemma deduplicate_same_patent_twice:
  "deduplicatePatents
     [patentReport ''US11234567'' ''First title'',
      patentReport ''US10000001'' ''Other patent'',
      patentReport ''US11234567'' ''Second title'']
   = [patentReport ''US11234567'' ''First title'',
      patentReport ''US10000001'' ''Other patent'']"
  by (simp add: deduplicatePatents_def patentKey_def or_else_def or_default_def truthy_str_def
      patentReport_def)

section \<open>Substrings\<close>

lemma startsWith_iff: "startsWith s t \<longleftrightarrow> (\<exists>v. s = t @ v)"
  by (induction s t rule: startsWith.induct) auto

lemma includes_str_iff: "includes_str s t \<longleftrightarrow> (\<exists>u v. s = u @ t @ v)"
proof (induction s)
  case Nil
  show ?case by auto
next
  case (Cons a s)
  show ?case
  proof
    assume "includes_str (a # s) t"
    then consider "startsWith (a # s) t" | "includes_str s t" by auto
    then show "\<exists>u v. a # s = u @ t @ v"
    proof cases
      case 1
      then obtain v where "a # s = t @ v" using startsWith_iff by blast
      then have "a # s = [] @ t @ v" by simp
      then show ?thesis by blast
    next
      case 2
      with Cons obtain u v where "s = u @ t @ v" by blast
      then have "a # s = (a # u) @ t @ v" by simp
      then show ?thesis by blast
    qed
  next
    assume "\<exists>u v. a # s = u @ t @ v"
    then obtain u v where uv: "a # s = u @ t @ v" by blast
    show "includes_str (a # s) t"
    proof (cases u)
      case Nil
      with uv have "startsWith (a # s) t" using startsWith_iff by auto
      then show ?thesis by simp
    next
      case (Cons b u')
      with uv have "s = u' @ t @ v" by simp
      with Cons.IH have "includes_str s t" by blast
      then show ?thesis by simp
    qed
  qed
qed


section \<open>The trademark search\<close>

lemma upperUnits_table:
  "upperUnits (of_char c) =
     (let n = of_char c :: nat
      in if 97 \<le> n \<and> n \<le> 122 then [n - 32]
         else if n = 181 then [924]
         else if n = 223 then [83, 83]
         else if n = 247 then [247]
         else if 224 \<le> n \<and> n \<le> 254 then [n - 32]
         else if n = 255 then [376]
         else [n])"
  by (auto simp: upperUnits_def Let_def)

lemma upper_apple_pie: "toUpperCase ''apple pie 7'' = map of_char ''APPLE PIE 7''"
  by (simp add: toUpperCase_def upperUnits_def)

lemma upper_strasse:
  "toUpperCase (''Stra'' @ [CHR 0xDF] @ ''e'') = map of_char ''STRASSE''"
  by (simp add: toUpperCase_def upperUnits_def)

lemma upper_latin1:
  "toUpperCase [CHR 0xE9, CHR 0xF7, CHR 0xFF, CHR 0xB5, CHR 0xC9] = [201, 247, 376, 924, 201]"
  by (simp add: toUpperCase_def upperUnits_def)

text \<open>
  C10. The trademark search reads nothing from the outside world and sends nothing: for
  every world, service state, query and limit it returns, with the state unchanged,
  exactly two records. The mark of the first is the upper-cased query: every code unit
  of the query is replaced by its upper-case form (a to z and the Latin-1 small letters
  move down by 32, the sharp s becomes SS, the micro sign becomes U+039C, y with
  diaeresis becomes U+0178, every other code unit stays). The mark of the second is the
  same followed by " PLUS". The limit and the world have no influence. For the queries
  "apple pie 7" and "Strasse" written with the sharp s, the first marks are "APPLE PIE 7"
  and "STRASSE".
\<close>

theorem searchTrademarks_two_synthetic_records:
  "(let upper = (\<lambda>c. let n = of_char c :: nat
                      in if 97 \<le> n \<and> n \<le> 122 then [n - 32]
                         else if n = 181 then [924]
                         else if n = 223 then [83, 83]
                         else if n = 247 then [247]
                         else if 224 \<le> n \<and> n \<le> 254 then [n - 32]
                         else if n = 255 then [376]
                         else [n]);
        shout = concat (map upper query)
    in \<exists>a b. searchTrademarks w svc query limit = (Inr [a, b], svc)
           \<and> ts_mark a = Some shout
           \<and> ts_mark b = Some (shout @ [32, 80, 76, 85, 83]))
   \<and> fst (searchTrademarks w svc query limit) = fst (searchTrademarks w' svc' query limit')
   \<and> map ts_mark (projr (fst (searchTrademarks w svc ''apple pie 7'' limit)))
       = [Some (map of_char ''APPLE PIE 7''), Some (map of_char ''APPLE PIE 7 PLUS'')]
   \<and> map ts_mark (projr (fst (searchTrademarks w svc (''Stra'' @ [CHR 0xDF] @ ''e'') limit)))
       = [Some (map of_char ''STRASSE''), Some (map of_char ''STRASSE PLUS'')]"
proof (intro conjI)
  have plus: "map of_char '' PLUS'' = [32, 80, 76, 85, 83 :: nat]"
    by simp
  have table: "toUpperCase query
      = concat (map (\<lambda>c. let n = of_char c :: nat
                      in if 97 \<le> n \<and> n \<le> 122 then [n - 32]
                         else if n = 181 then [924]
                         else if n = 223 then [83, 83]
                         else if n = 247 then [247]
                         else if 224 \<le> n \<and> n \<le> 254 then [n - 32]
                         else if n = 255 then [376]
                         else [n]) query)"
    unfolding toUpperCase_def upperUnits_table ..
  show "let upper = (\<lambda>c. let n = of_char c :: nat
                      in if 97 \<le> n \<and> n \<le> 122 then [n - 32]
                         else if n = 181 then [924]
                         else if n = 223 then [83, 83]
                         else if n = 247 then [247]
                         else if 224 \<le> n \<and> n \<le> 254 then [n - 32]
                         else if n = 255 then [376]
                         else [n]);
        shout = concat (map upper query)
    in \<exists>a b. searchTrademarks w svc query limit = (Inr [a, b], svc)
           \<and> ts_mark a = Some shout
           \<and> ts_mark b = Some (shout @ [32, 80, 76, 85, 83])"
    unfolding Let_def table [unfolded Let_def, symmetric]
    by (simp add: searchTrademarks_def getMockTrademarkResults_def plus)
  show "fst (searchTrademarks w svc query limit) = fst (searchTrademarks w' svc' query limit')"
    by (simp add: searchTrademarks_def)
  have ap: "map of_char ''APPLE PIE 7 PLUS'' = map of_char ''APPLE PIE 7'' @ [32, 80, 76, 85, 83 :: nat]"
    by simp
  show "map ts_mark (projr (fst (searchTrademarks w svc ''apple pie 7'' limit)))
       = [Some (map of_char ''APPLE PIE 7''), Some (map of_char ''APPLE PIE 7 PLUS'')]"
    unfolding ap
    by (simp add: searchTrademarks_def getMockTrademarkResults_def upper_apple_pie plus)
  have marks: "map ts_mark (projr (fst (searchTrademarks w svc q limit)))
      = [Some (toUpperCase q), Some (toUpperCase q @ map of_char '' PLUS'')]" for q
    by (simp add: searchTrademarks_def getMockTrademarkResults_def)
  have sp: "map of_char ''STRASSE PLUS''
      = (map of_char ''STRASSE'' @ map of_char '' PLUS'' :: nat list)"
    by simp
  show "map ts_mark (projr (fst (searchTrademarks w svc (''Stra'' @ [CHR 0xDF] @ ''e'') limit)))
       = [Some (map of_char ''STRASSE''), Some (map of_char ''STRASSE PLUS'')]"
    unfolding marks upper_strasse sp ..
qed

section \<open>The external-index adapter: guard and exceptions\<close>

lemma trim_blank:
  assumes "\<forall>c\<in>set s. isWhiteSpace c"
  shows "trim s = []"
proof -
  from assms have blank: "dropWhile isWhiteSpace s = []"
    by (induction s) auto
  show ?thesis unfolding trim_def blank by simp
qed

text \<open>
  C6. A query that is empty or consists of white space only (tab, line feed, vertical
  tab, form feed, carriage return, space, no-break space) makes the external-index
  adapter return the empty list at once: the service state, and with it the list of
  requests sent, is unchanged.
\<close>

theorem blank_query_returns_empty_without_request:
  "\<forall>c\<in>set query. isWhiteSpace c \<Longrightarrow>
     searchPatentsViaGoogleAPI w svc query limit = (Inr [], svc)"
  by (simp add: searchPatentsViaGoogleAPI_def googleTry_def trim_blank)

theorem blank_query_witness:
  "list_all isWhiteSpace [CHR '' '', CHR 0x09, CHR 0xA0]
   \<and> searchPatentsViaGoogleAPI (indexWorld documentedEnvelope) (newSimpleUSPTOService False)
         [CHR '' '', CHR 0x09, CHR 0xA0] 20
       = (Inr [], newSimpleUSPTOService False)
   \<and> requests (snd (searchPatentsViaGoogleAPI (indexWorld documentedEnvelope)
         (newSimpleUSPTOService False) [CHR '' '', CHR 0x09, CHR 0xA0] 20)) = []"
proof -
  have h: "\<forall>c\<in>set [CHR '' '', CHR 0x09, CHR 0xA0]. isWhiteSpace c"
    by (simp add: isWhiteSpace_def isWhiteSpaceUnit_def)
  show ?thesis
    using h blank_query_returns_empty_without_request
      [OF h, of "indexWorld documentedEnvelope" "newSimpleUSPTOService False" 20]
    by (simp add: newSimpleUSPTOService_def)
qed

text \<open>A query with a visible character does reach the network.\<close>

lemma nonblank_query_sends_request:
  "requests (snd (searchPatentsViaGoogleAPI (indexWorld documentedEnvelope)
      (newSimpleUSPTOService False) ''ai'' 20)) = [''ai'']"
  by (simp add: searchPatentsViaGoogleAPI_def googleTry_def trim_def isWhiteSpace_def isWhiteSpaceUnit_def
      newSimpleUSPTOService_def indexWorld_def split: prod.splits sum.splits)

lemma google_never_throws:
  "\<exists>patents svc'. searchPatentsViaGoogleAPI w svc query limit = (Inr patents, svc')"
  by (auto simp: searchPatentsViaGoogleAPI_def split: prod.splits sum.splits)

lemma google_result_independent_of_state:
  "fst (searchPatentsViaGoogleAPI w svc query limit)
     = fst (searchPatentsViaGoogleAPI w svc' query limit)"
  by (auto simp: searchPatentsViaGoogleAPI_def googleTry_def Let_def split: prod.splits sum.splits)

lemma getMockPatentResults_nonempty: "getMockPatentResults query \<noteq> []"
  by (simp add: getMockPatentResults_def Let_def aiPatents_def blockchainPatents_def
      quantumPatents_def genericPatents_def)


section \<open>The patent search never throws\<close>

lemma trySelenium_None:
  "browserAdapterGaveNothing w svc query limit \<Longrightarrow> fst (trySelenium w svc query limit) = None"
  by (auto simp: browserAdapterGaveNothing_def trySelenium_def
      split: option.splits prod.splits sum.splits)

lemma searchPatents_returns:
  "\<exists>results svc'. searchPatents w svc query limit = (Inr results, svc')"
proof (cases "trySelenium w svc query limit")
  case (Pair early svc1)
  obtain patents svc2 where g: "searchPatentsViaGoogleAPI w svc1 query limit = (Inr patents, svc2)"
    using google_never_throws by blast
  show ?thesis
    using Pair g by (cases early) (auto simp: searchPatents_def)
qed

text \<open>
  C1. For every world, service state, query and limit the patent search returns a list
  and throws nothing. When the browser adapter gave nothing (it is disabled, it threw, or
  it returned no record) and the external-index adapter returned no record (its own
  exceptions become the empty list), the search returns the static fallback data of the
  query, and that data is never the empty list.
\<close>

theorem searchPatents_never_throws_and_falls_back:
  "(\<exists>results svc'. searchPatents w svc query limit = (Inr results, svc'))
   \<and> (browserAdapterGaveNothing w svc query limit
        \<and> fst (searchPatentsViaGoogleAPI w svc query limit) = Inr []
        \<longrightarrow> fst (searchPatents w svc query limit) = Inr (getMockPatentResults query))
   \<and> getMockPatentResults query \<noteq> []"
proof (intro conjI impI)
  show "\<exists>results svc'. searchPatents w svc query limit = (Inr results, svc')"
    by (rule searchPatents_returns)
next
  assume h: "browserAdapterGaveNothing w svc query limit
        \<and> fst (searchPatentsViaGoogleAPI w svc query limit) = Inr []"
  obtain early svc1 where t: "trySelenium w svc query limit = (early, svc1)"
    by (cases "trySelenium w svc query limit")
  with h have early: "early = None"
    using trySelenium_None [of w svc query limit] by simp
  obtain g svc2 where g: "searchPatentsViaGoogleAPI w svc1 query limit = (g, svc2)"
    by (cases "searchPatentsViaGoogleAPI w svc1 query limit")
  have "g = Inr []"
    using h g google_result_independent_of_state [of w svc query limit svc1] by simp
  with t early g show "fst (searchPatents w svc query limit) = Inr (getMockPatentResults query)"
    by (simp add: searchPatents_def)
next
  show "getMockPatentResults query \<noteq> []"
    by (rule getMockPatentResults_nonempty)
qed

lemma offline_selenium_throws:
  "fst (selenium_searchPatents offlineWorld newSeleniumUSPTOService q l)
     = Inl (Error ''WebDriver session could not be created'')"
  by (simp add: selenium_searchPatents_def searchPatentsPublic_def ensure_driver_def
      initialize_def offlineWorld_def newSeleniumUSPTOService_def)

lemma offline_google_empty:
  "fst (searchPatentsViaGoogleAPI offlineWorld svc ''xyz123nonsense'' l) = Inr []"
  by (simp add: searchPatentsViaGoogleAPI_def googleTry_def offlineWorld_def trim_def
      isWhiteSpace_def isWhiteSpaceUnit_def)

theorem searchPatents_fallback_witness:
  "browserAdapterGaveNothing offlineWorld (newSimpleUSPTOService True) ''xyz123nonsense'' 20
   \<and> fst (searchPatentsViaGoogleAPI offlineWorld (newSimpleUSPTOService True)
         ''xyz123nonsense'' 20) = Inr []
   \<and> fst (searchPatents offlineWorld (newSimpleUSPTOService True) ''xyz123nonsense'' 20)
       = Inr (getMockPatentResults ''xyz123nonsense'')"
proof -
  have a: "browserAdapterGaveNothing offlineWorld (newSimpleUSPTOService True)
             ''xyz123nonsense'' 20"
    by (simp add: browserAdapterGaveNothing_def newSimpleUSPTOService_def
        offline_selenium_throws)
  have b: "fst (searchPatentsViaGoogleAPI offlineWorld (newSimpleUSPTOService True)
             ''xyz123nonsense'' 20) = Inr []"
    by (rule offline_google_empty)
  show ?thesis
    using a b searchPatents_never_throws_and_falls_back
      [of offlineWorld "newSimpleUSPTOService True" "''xyz123nonsense''" 20]
    by simp
qed

section \<open>The static fallback data\<close>

lemma generic_fallback_example:
  "getMockPatentResults ''xyz123nonsense'' = genericPatents ''xyz123nonsense''"
  by (simp add: getMockPatentResults_def toLowerCase_def toLowerChar_def)

text \<open>
  C8. The fallback data is a function of the query, so two calls with one query agree,
  and it is never empty (\<open>getMockPatentResults_nonempty\<close>). But the query
  "blockchain" does not get the blockchain records: the word contains "ai" (in "chain"),
  the test for the AI theme comes first, and the AI records are returned.
\<close>

theorem blockchain_query_gets_ai_records:
  "getMockPatentResults ''blockchain'' = aiPatents \<and> aiPatents \<noteq> blockchainPatents"
  by (simp add: getMockPatentResults_def toLowerCase_def toLowerChar_def aiPatents_def
      blockchainPatents_def mkPatent_def)

text \<open>
  The same holds for every query that contains "blockchain" in any letter case; the
  blockchain records are reached only through "crypto".
\<close>

lemma blockchain_contains_ai:
  assumes "includes_str s ''blockchain''"
  shows "includes_str s ''ai''"
proof -
  from assms obtain u v where "s = u @ ''blockchain'' @ v"
    using includes_str_iff by blast
  then have "s = (u @ ''blockch'') @ ''ai'' @ (''n'' @ v)" by simp
  then show ?thesis using includes_str_iff by blast
qed

lemma every_blockchain_query_gets_ai_records:
  "includes_str (toLowerCase query) ''blockchain'' \<Longrightarrow> getMockPatentResults query = aiPatents"
  by (simp add: getMockPatentResults_def Let_def blockchain_contains_ai)

lemma lower_crypto_wallet: "toLowerCase ''Crypto wallet'' = ''crypto wallet''"
  by code_simp

lemma crypto_query_gets_blockchain_records:
  "getMockPatentResults ''Crypto wallet'' = blockchainPatents"
  by (simp add: getMockPatentResults_def lower_crypto_wallet)


section \<open>The browser adapter when both sites are empty\<close>

lemma length_getMockResults:
  "length (getMockResults query limit) = nat (if limit < 0 then max (2 + limit) 0 else min limit 2)"
  by (simp add: getMockResults_def slice0_def Let_def)

lemma getMockResults_nonempty: "1 \<le> limit \<Longrightarrow> getMockResults query limit \<noteq> []"
proof -
  assume "1 \<le> limit"
  then have "length (getMockResults query limit) \<noteq> 0"
    unfolding length_getMockResults by auto
  then show ?thesis by auto
qed

lemma selenium_mock_when_both_empty:
  assumes "fst (searchPatentsPublic w s query limit) = Inr []"
    and "fst (searchGooglePatents w (snd (searchPatentsPublic w s query limit)) query limit) = Inr []"
  shows "fst (selenium_searchPatents w s query limit) = Inr (getMockResults query limit)"
  using assms by (auto simp: selenium_searchPatents_def split: prod.splits sum.splits)

text \<open>
  C4, as the code has it. When the primary site and then the secondary site give the
  browser adapter no record, the adapter does not throw and returns its own two literal
  records built from the query, cut by \<open>slice(0, limit)\<close>. For a limit of at least 1
  that list is not empty, so the search service returns it and sends no request to the
  external index.
\<close>

theorem selenium_returns_mock_records_when_sites_are_empty:
  assumes "fst (searchPatentsPublic w s query limit) = Inr []"
    and "fst (searchGooglePatents w (snd (searchPatentsPublic w s query limit)) query limit) = Inr []"
  shows "fst (selenium_searchPatents w s query limit) = Inr (getMockResults query limit)
    \<and> length (getMockResults query limit) = nat (if limit < 0 then max (2 + limit) 0 else min limit 2)
    \<and> (1 \<le> limit \<and> useSelenium svc \<and> seleniumService svc = Some s \<longrightarrow>
          getMockResults query limit \<noteq> []
          \<and> fst (searchPatents w svc query limit) = Inr (getMockResults query limit)
          \<and> requests (snd (searchPatents w svc query limit)) = requests svc)"
proof (intro conjI impI)
  show m: "fst (selenium_searchPatents w s query limit) = Inr (getMockResults query limit)"
    using assms by (rule selenium_mock_when_both_empty)
  show "length (getMockResults query limit) = nat (if limit < 0 then max (2 + limit) 0 else min limit 2)"
    by (rule length_getMockResults)
  assume h: "1 \<le> limit \<and> useSelenium svc \<and> seleniumService svc = Some s"
  then show ne: "getMockResults query limit \<noteq> []"
    using getMockResults_nonempty by blast
  obtain r s' where r: "selenium_searchPatents w s query limit = (r, s')"
    by (cases "selenium_searchPatents w s query limit")
  with m have r': "r = Inr (getMockResults query limit)" by simp
  have t: "trySelenium w svc query limit
             = (Some (getMockResults query limit), svc\<lparr>seleniumService := Some s'\<rparr>)"
    using h r r' ne by (simp add: trySelenium_def)
  then show "fst (searchPatents w svc query limit) = Inr (getMockResults query limit)"
    by (simp add: searchPatents_def)
  from t show "requests (snd (searchPatents w svc query limit)) = requests svc"
    by (simp add: searchPatents_def)
qed

lemma timeout_public: "searchPatentsPublic timeoutWorld newSeleniumUSPTOService ''xyz'' 20
    = (Inr [], \<lparr>driver = True\<rparr>)"
  by (simp add: searchPatentsPublic_def ensure_driver_def initialize_def timeoutWorld_def
      newSeleniumUSPTOService_def)

lemma timeout_google: "searchGooglePatents timeoutWorld \<lparr>driver = True\<rparr> ''xyz'' 20
    = (Inr [], \<lparr>driver = True\<rparr>)"
  by (simp add: searchGooglePatents_def ensure_driver_def initialize_def timeoutWorld_def)

text \<open>
  The claim as stated fails where both sites time out: the adapter's answer is not the
  empty list.
\<close>

theorem selenium_empty_sites_counterexample:
  "fst (searchPatentsPublic timeoutWorld newSeleniumUSPTOService ''xyz'' 20) = Inr []
   \<and> fst (searchGooglePatents timeoutWorld
           (snd (searchPatentsPublic timeoutWorld newSeleniumUSPTOService ''xyz'' 20)) ''xyz'' 20)
       = Inr []
   \<and> fst (selenium_searchPatents timeoutWorld newSeleniumUSPTOService ''xyz'' 20) \<noteq> Inr []"
  by (simp add: timeout_public timeout_google selenium_searchPatents_def getMockResults_def
      slice0_def)

theorem selenium_mock_records_witness:
  "fst (searchPatentsPublic timeoutWorld newSeleniumUSPTOService ''xyz'' 20) = Inr []
   \<and> fst (searchGooglePatents timeoutWorld
           (snd (searchPatentsPublic timeoutWorld newSeleniumUSPTOService ''xyz'' 20)) ''xyz'' 20)
       = Inr []
   \<and> (1::int) \<le> 20 \<and> useSelenium (newSimpleUSPTOService True)
   \<and> seleniumService (newSimpleUSPTOService True) = Some newSeleniumUSPTOService
   \<and> fst (searchPatents timeoutWorld (newSimpleUSPTOService True) ''xyz'' 20)
       = Inr (getMockResults ''xyz'' 20)
   \<and> length (getMockResults ''xyz'' 20) = 2
   \<and> requests (snd (searchPatents timeoutWorld (newSimpleUSPTOService True) ''xyz'' 20)) = []"
proof -
  have a: "fst (searchPatentsPublic timeoutWorld newSeleniumUSPTOService ''xyz'' 20) = Inr []"
    by (simp add: timeout_public)
  have b: "fst (searchGooglePatents timeoutWorld
           (snd (searchPatentsPublic timeoutWorld newSeleniumUSPTOService ''xyz'' 20)) ''xyz'' 20)
       = Inr []"
    by (simp add: timeout_public timeout_google)
  show ?thesis
    using a b selenium_returns_mock_records_when_sites_are_empty
      [OF a b, of "newSimpleUSPTOService True"]
    by (simp add: newSimpleUSPTOService_def)
qed


section \<open>The live paths and the limit\<close>

text \<open>
  The browser adapter (its literal records included) and the external-index adapter cut
  their lists to a non-negative limit; only the static fallback data does not.
\<close>

lemma mapM_length: "mapM f xs = Inr ys \<Longrightarrow> length ys = length xs"
  by (induction xs arbitrary: ys) (auto simp: andThen_def split: sum.splits)

lemma length_slice0: "0 \<le> limit \<Longrightarrow> int (length (slice0 xs limit)) \<le> limit"
  by (auto simp: slice0_def Let_def)

lemma processResponse_length:
  assumes "0 \<le> limit" and "processResponse data limit = Inr patents"
  shows "int (length patents) \<le> limit"
  using assms
  by (auto simp: processResponse_def andThen_def length_slice0 dest!: mapM_length
      split: if_splits sum.splits json.splits)

lemma google_respects_limit:
  assumes "0 \<le> limit" and "fst (searchPatentsViaGoogleAPI w svc query limit) = Inr patents"
  shows "int (length patents) \<le> limit"
  using assms
  by (auto simp: searchPatentsViaGoogleAPI_def googleTry_def Let_def
      dest: processResponse_length split: if_splits sum.splits prod.splits)

lemma extractLoop_length:
  "0 \<le> limit \<Longrightarrow> int (length (extractLoop extract els limit)) \<le> limit"
proof -
  assume l: "0 \<le> limit"
  have "length (extractLoop extract els limit) \<le> length (take (nat (min (int (length els)) limit)) els)"
    unfolding extractLoop_def using length_filter_le [of keep] by (metis length_map)
  also have "\<dots> \<le> nat limit" by auto
  finally show ?thesis using l by linarith
qed

lemma selenium_respects_limit:
  assumes "0 \<le> limit" and "fst (selenium_searchPatents w s query limit) = Inr results"
  shows "int (length results) \<le> limit"
proof -
  have m: "int (length (getMockResults query limit)) \<le> limit"
    using assms(1) unfolding length_getMockResults by auto
  show ?thesis
    using assms m
    by (auto simp: selenium_searchPatents_def searchPatentsPublic_def searchGooglePatents_def
        extractLoop_length split: prod.splits sum.splits if_splits option.splits)
qed

lemma live_paths_respect_limit:
  assumes "0 \<le> limit" and "fst (searchPatents w svc query limit) = Inr results"
    and "results \<noteq> getMockPatentResults query"
  shows "int (length results) \<le> limit"
proof -
  obtain early svc1 where t: "trySelenium w svc query limit = (early, svc1)"
    by (cases "trySelenium w svc query limit")
  show ?thesis
  proof (cases early)
    case (Some rs)
    with t assms(2) have "results = rs" by (simp add: searchPatents_def)
    moreover from t Some have "\<exists>sel. fst (selenium_searchPatents w sel query limit) = Inr rs"
      by (auto simp: trySelenium_def split: if_splits option.splits prod.splits sum.splits)
         (metis fst_conv)
    ultimately show ?thesis using selenium_respects_limit [OF assms(1)] by blast
  next
    case None
    obtain g svc2 where g: "searchPatentsViaGoogleAPI w svc1 query limit = (g, svc2)"
      by (cases "searchPatentsViaGoogleAPI w svc1 query limit")
    with t None assms(2,3) have "g = Inr results"
      by (auto simp: searchPatents_def split: sum.splits if_splits)
    with g have "fst (searchPatentsViaGoogleAPI w svc1 query limit) = Inr results" by simp
    then show ?thesis using google_respects_limit [OF assms(1)] by blast
  qed
qed


text \<open>
  C2. The static fallback data takes no limit: with the browser adapter disabled and the
  external index unreachable, the search for "xyz" with limit 1 returns the three generic
  fallback records.
\<close>

theorem fallback_ignores_limit:
  "fst (searchPatents offlineWorld (newSimpleUSPTOService False) ''xyz'' 1)
     = Inr (genericPatents ''xyz'')
   \<and> length (genericPatents ''xyz'') = 3"
  by (simp add: searchPatents_def trySelenium_def newSimpleUSPTOService_def
      searchPatentsViaGoogleAPI_def googleTry_def offlineWorld_def trim_def isWhiteSpace_def isWhiteSpaceUnit_def
      getMockPatentResults_def toLowerCase_def toLowerChar_def genericPatents_def)

section \<open>The external-index adapter on the documented answer\<close>

lemma documented_cluster_record:
  "clusterRecord (JObj [(''result'', JArr rs)]) = Inr notAvailableRecord"
  by (simp add: clusterRecord_def andThen_def lookup_def js_or_def arrayMap_def
      notAvailableRecord_def Let_def)

text \<open>
  C5. On the documented answer (two clusters holding three results, limit 3) the adapter
  returns two records, one for each cluster and none for a result: it reads
  \<open>cluster.result\<close> as one object, finds no \<open>patent\<close> and no \<open>title\<close> in the
  array, and fills in its defaults. On an answer of the shape it does read, the title
  is passed on with its markup and its HTML entity.
\<close>

theorem documented_envelope_gives_placeholder_records:
  "fst (searchPatentsViaGoogleAPI (indexWorld documentedEnvelope) (newSimpleUSPTOService False)
          ''artificial intelligence'' 3)
     = Inr [notAvailableRecord, notAvailableRecord]
   \<and> map sr_title (projr (fst (searchPatentsViaGoogleAPI (indexWorld objectEnvelope)
          (newSimpleUSPTOService False) ''artificial intelligence'' 3)))
     = [JStr ''<b>AI</b> &amp; robots'']"
proof
  show "fst (searchPatentsViaGoogleAPI (indexWorld documentedEnvelope)
          (newSimpleUSPTOService False) ''artificial intelligence'' 3)
     = Inr [notAvailableRecord, notAvailableRecord]"
    by (simp add: searchPatentsViaGoogleAPI_def googleTry_def indexWorld_def trim_def
        isWhiteSpace_def isWhiteSpaceUnit_def processResponse_def documentedEnvelope_def
        andThen_def lookup_def slice0_def documented_cluster_record)
  show "map sr_title (projr (fst (searchPatentsViaGoogleAPI (indexWorld objectEnvelope)
          (newSimpleUSPTOService False) ''artificial intelligence'' 3)))
     = [JStr ''<b>AI</b> &amp; robots'']"
    by (simp add: searchPatentsViaGoogleAPI_def googleTry_def indexWorld_def trim_def
        isWhiteSpace_def isWhiteSpaceUnit_def processResponse_def objectEnvelope_def
        andThen_def lookup_def slice0_def clusterRecord_def js_or_def arrayMap_def Let_def)
qed


section \<open>The content classifier\<close>

text \<open>
  The claim as stated fails on a page whose title is "Patent Application" and whose
  content mentions neither word: the specification's reading gives
  \<open>patent-application\<close>, the code gives \<open>patent-general\<close>.
\<close>

theorem classifier_title_only_counterexample:
  "identifyUSPTOContent (pageResult ''Patent Application'' ''Filed in 2021'')
     \<noteq> spec_classifier (pageResult ''Patent Application'' ''Filed in 2021'')"
proof -
  have l1: "toLowerCase ''Patent Application'' = ''patent application''" by code_simp
  have l2: "toLowerCase ''Filed in 2021'' = ''filed in 2021''" by code_simp
  have a: "identifyUSPTOContent (pageResult ''Patent Application'' ''Filed in 2021'') = ''patent-general''"
    by (simp add: identifyUSPTOContent_def pageResult_def or_default_def l1 l2)
  have b: "spec_classifier (pageResult ''Patent Application'' ''Filed in 2021'') = ''patent-application''"
    by (simp add: spec_classifier_def mentions_def pageResult_def or_default_def l1 l2)
  show ?thesis unfolding a b by simp
qed

text \<open>
  C7, as the code has it. "patent" and "trademark" are looked for in the lower-cased
  content or title; the second keyword ("application", "grant", "registration") and the
  trial-and-appeal language ("ptab", "trial and appeal") are looked for in the
  lower-cased content only. With these signals the classifier returns the first matching
  type in the order patent-application, patent-grant, patent-general,
  trademark-registration, trademark-application, trademark-general, ptab-decision,
  general.
\<close>

theorem classifier_priority:
  "(let c = toLowerCase (or_default (cr_content r) '''');
        t = toLowerCase (or_default (cr_title r) '''');
        P = (includes_str c ''patent'' \<or> includes_str t ''patent'');
        T = (includes_str c ''trademark'' \<or> includes_str t ''trademark'')
    in (identifyUSPTOContent r = ''patent-application'' \<longleftrightarrow>
          P \<and> includes_str c ''application'')
     \<and> (identifyUSPTOContent r = ''patent-grant'' \<longleftrightarrow>
          P \<and> \<not> includes_str c ''application'' \<and> includes_str c ''grant'')
     \<and> (identifyUSPTOContent r = ''patent-general'' \<longleftrightarrow>
          P \<and> \<not> includes_str c ''application'' \<and> \<not> includes_str c ''grant'')
     \<and> (identifyUSPTOContent r = ''trademark-registration'' \<longleftrightarrow>
          \<not> P \<and> T \<and> includes_str c ''registration'')
     \<and> (identifyUSPTOContent r = ''trademark-application'' \<longleftrightarrow>
          \<not> P \<and> T \<and> \<not> includes_str c ''registration'' \<and> includes_str c ''application'')
     \<and> (identifyUSPTOContent r = ''trademark-general'' \<longleftrightarrow>
          \<not> P \<and> T \<and> \<not> includes_str c ''registration'' \<and> \<not> includes_str c ''application'')
     \<and> (identifyUSPTOContent r = ''ptab-decision'' \<longleftrightarrow>
          \<not> P \<and> \<not> T \<and> (includes_str c ''ptab'' \<or> includes_str c ''trial and appeal''))
     \<and> (identifyUSPTOContent r = ''general'' \<longleftrightarrow>
          \<not> P \<and> \<not> T \<and> \<not> includes_str c ''ptab'' \<and> \<not> includes_str c ''trial and appeal''))"
  unfolding identifyUSPTOContent_def Let_def
  by simp

text \<open>
  The code and the specification's reading agree on every page whose title adds none of
  the second keywords to those of the content.
\<close>

lemma classifier_agrees_when_title_adds_no_keyword:
  assumes "\<forall>k \<in> {''application'', ''grant'', ''registration'', ''ptab'', ''trial and appeal''}.
             includes_str (toLowerCase (or_default (cr_title r) '''')) k
             \<longrightarrow> includes_str (toLowerCase (or_default (cr_content r) '''')) k"
  shows "identifyUSPTOContent r = spec_classifier r"
  using assms unfolding identifyUSPTOContent_def spec_classifier_def mentions_def Let_def
  by auto

section \<open>Crawling many URLs\<close>

text \<open>The argument \<open>python3\<close> receives for the test script has lost the quotes of the URL.\<close>

lemma shellArgument_testScript:
  "includes_str testScript (''arun(url='' @ [doubleQuote] @ ''https://www.example.com'' @ [doubleQuote] @ '')'')
   \<and> doubleQuote \<notin> set (shellArgument testScript)
   \<and> includes_str (shellArgument testScript) ''arun(url=https://www.example.com)''"
  by code_simp

lemma initialize_always_throws: "\<exists>e. crawl4ai_initialize w svc = Inl e"
  by (simp add: crawl4ai_initialize_def checkAndInstallCrawl4AI_def verifyCrawl4AI_def
      andThen_def)

lemma crawlLoop_throws:
  assumes "\<not> isInitialized svc" and "crawl4ai_initialize w svc = Inl e"
    and "i < length urls"
  shows "crawlLoop w urls options i results svc = (Inl e, svc)"
proof -
  from assms(3) obtain url batch where b: "take batchSize (drop i urls) = url # batch"
    by (cases "take batchSize (drop i urls)") (auto simp: batchSize_def)
  have "crawl w svc url options = (Inl e, svc)"
    using assms(1,2) by (simp add: crawl_def)
  then have "crawlBatch w svc (url # batch) options = (Inl e, svc)" by simp
  then show ?thesis
    using assms(3) b by (simp add: crawlLoop.simps [of w urls options i results svc])
qed

text \<open>
  C9. The claim does not hold of the code. The verification command of \<open>initialize\<close>
  cannot succeed, \<open>initialize\<close> rethrows, \<open>crawl\<close> awaits it outside its \<open>try\<close> block, and
  \<open>Promise.all\<close> rejects with the first batch: for every world, every service that is not
  initialised (as every new service is, and stays) and every non-empty list of URLs,
  \<open>crawlMultiple\<close> throws and returns no result, with the service unchanged.
\<close>

theorem crawlMultiple_throws_on_every_nonempty_list:
  assumes "\<not> isInitialized svc" and "urls \<noteq> []"
  shows "\<exists>e. crawlMultiple w svc urls options = (Inl e, svc)"
proof -
  obtain e where "crawl4ai_initialize w svc = Inl e"
    using initialize_always_throws by blast
  then have "crawlMultiple w svc urls options = (Inl e, svc)"
    using assms crawlLoop_throws [of svc w e 0 urls] by (simp add: crawlMultiple_def)
  then show ?thesis by blast
qed

theorem crawlMultiple_throws_witness:
  "\<not> isInitialized (newCrawl4AIService noOptions)
   \<and> sevenUrls \<noteq> []
   \<and> crawlMultiple installedCrawlWorld (newCrawl4AIService noOptions) sevenUrls noOptions
       = (Inl (Error ''Command failed: python3 -c (SyntaxError: invalid syntax)''),
          newCrawl4AIService noOptions)"
proof -
  have a: "\<not> isInitialized (newCrawl4AIService noOptions)"
    by (simp add: newCrawl4AIService_def)
  have b: "sevenUrls \<noteq> []"
    by (simp add: sevenUrls_def)
  have i: "crawl4ai_initialize installedCrawlWorld (newCrawl4AIService noOptions)
             = Inl (Error ''Command failed: python3 -c (SyntaxError: invalid syntax)'')"
    by (simp add: crawl4ai_initialize_def checkAndInstallCrawl4AI_def verifyCrawl4AI_def
        andThen_def installedCrawlWorld_def)
  from crawlMultiple_throws_on_every_nonempty_list [OF a b, of installedCrawlWorld noOptions]
  obtain e where e: "crawlMultiple installedCrawlWorld (newCrawl4AIService noOptions)
                       sevenUrls noOptions = (Inl e, newCrawl4AIService noOptions)"
    by blast
  have "crawlMultiple installedCrawlWorld (newCrawl4AIService noOptions) sevenUrls noOptions
          = (Inl (Error ''Command failed: python3 -c (SyntaxError: invalid syntax)''),
             newCrawl4AIService noOptions)"
    using crawlLoop_throws [OF a i, of 0 sevenUrls noOptions "[]"] b
    by (simp add: crawlMultiple_def)
  with a b e show ?thesis by simp
qed

text \<open>The empty list is the one input on which \<open>crawlMultiple\<close> returns.\<close>

lemma crawlMultiple_empty: "crawlMultiple w svc [] options = (Inr [], svc)"
  by (simp add: crawlMultiple_def crawlLoop.simps [of w "[]"])

section \<open>The batching loop on its own\<close>

text \<open>
  The loop of \<open>crawlMultiple\<close> is written as the claim says. Started in a state with
  \<open>isInitialized\<close> set, which no run of the service reaches, it gives one result for every
  URL in the order of the input, and its effects are those of the consecutive batches of
  at most five URLs, with one pause of a second between a batch and the next.
\<close>

lemma chunks_empty [simp]: "chunks n [] = []"
  by (simp add: chunks.simps [of n "[]"])

lemma concat_chunks: "0 < n \<Longrightarrow> concat (chunks n xs) = xs"
proof (induction n xs rule: chunks.induct)
  case (1 n xs)
  then show ?case by (subst chunks.simps) auto
qed

lemma chunks_sizes: "b \<in> set (chunks n xs) \<Longrightarrow> 1 \<le> length b \<and> length b \<le> n"
proof (induction n xs rule: chunks.induct)
  case (1 n xs)
  show ?case
  proof (cases "n = 0 \<or> xs = []")
    case True
    with "1.prems" show ?thesis by (simp add: chunks.simps [of n xs])
  next
    case False
    with "1.prems" have "b = take n xs \<or> b \<in> set (chunks n (drop n xs))"
      by (simp add: chunks.simps [of n xs])
    then show ?thesis
    proof
      assume "b = take n xs"
      with False show ?thesis by (cases xs) auto
    next
      assume "b \<in> set (chunks n (drop n xs))"
      with "1.IH" False show ?thesis by blast
    qed
  qed
qed

lemma chunks_Nil_iff: "chunks n xs = [] \<longleftrightarrow> n = 0 \<or> xs = []"
  by (simp add: chunks.simps [of n xs])

lemma batchTrace_Cons:
  "batchTrace (b # bs) = map Exec b @ (if bs = [] then [] else Delay 1000 # batchTrace bs)"
  by (cases bs) auto

lemma initialized_crawl:
  assumes "isInitialized svc"
  shows "crawl w svc url options
    = (Inr (toCrawlResult url (python_run w url (spread (config svc) options))),
       svc\<lparr>trace := trace svc @ [Exec url]\<rparr>)"
  using assms by (simp add: crawl_def Let_def)

lemma initialized_crawlBatch:
  assumes "isInitialized svc"
  shows "crawlBatch w svc batch options
    = (Inr (map (\<lambda>url. toCrawlResult url (python_run w url (spread (config svc) options))) batch),
       svc\<lparr>trace := trace svc @ map Exec batch\<rparr>)"
  using assms
proof (induction batch arbitrary: svc)
  case Nil
  show ?case by simp
next
  case (Cons url batch)
  let ?svc1 = "svc\<lparr>trace := trace svc @ [Exec url]\<rparr>"
  have i: "isInitialized ?svc1" using Cons.prems by simp
  show ?case
    using Cons.IH [OF i] initialized_crawl [OF Cons.prems, of w url options]
    by simp
qed

lemma initialized_crawlLoop:
  assumes "isInitialized svc"
  shows "crawlLoop w urls options i results svc
    = (Inr (results @ map (\<lambda>url. toCrawlResult url (python_run w url (spread (config svc) options)))
                         (drop i urls)),
       svc\<lparr>trace := trace svc @ batchTrace (chunks batchSize (drop i urls))\<rparr>)"
  using assms
proof (induction w urls options i results svc rule: crawlLoop.induct)
  case (1 w urls options i results svc)
  let ?f = "\<lambda>url. toCrawlResult url (python_run w url (spread (config svc) options))"
  show ?case
  proof (cases "i < length urls")
    case False
    then show ?thesis by (simp add: crawlLoop.simps [of w urls options i])
  next
    case True
    let ?batch = "take batchSize (drop i urls)"
    let ?svc1 = "svc\<lparr>trace := trace svc @ map Exec ?batch\<rparr>"
    let ?svc2 = "if i + batchSize < length urls then delay 1000 ?svc1 else ?svc1"
    have b: "crawlBatch w svc ?batch options = (Inr (map ?f ?batch), ?svc1)"
      using initialized_crawlBatch [OF "1.prems"] by simp
    have i2: "isInitialized ?svc2" using "1.prems" by (simp add: delay_def)
    have c2: "config ?svc2 = config svc" by (simp add: delay_def)
    have ih: "crawlLoop w urls options (i + batchSize) (results @ map ?f ?batch) ?svc2
      = (Inr ((results @ map ?f ?batch) @ map ?f (drop (i + batchSize) urls)),
         ?svc2\<lparr>trace := trace ?svc2 @ batchTrace (chunks batchSize (drop (i + batchSize) urls))\<rparr>)"
      using "1.IH" [OF True b [symmetric] refl i2] unfolding c2 .
    have d: "drop (i + batchSize) urls = drop batchSize (drop i urls)"
      by (simp add: add.commute)
    have td: "?batch @ drop batchSize (drop i urls) = drop i urls"
      by (rule append_take_drop_id)
    have res: "map ?f ?batch @ map ?f (drop (i + batchSize) urls) = map ?f (drop i urls)"
      unfolding d map_append [symmetric] td by (rule refl)
    have ne: "drop i urls \<noteq> []" using True by simp
    have ch: "chunks batchSize (drop i urls)
                = ?batch # chunks batchSize (drop (i + batchSize) urls)"
      unfolding d using ne by (subst chunks.simps) (simp add: batchSize_def)
    have rest: "chunks batchSize (drop (i + batchSize) urls) = [] \<longleftrightarrow> \<not> i + batchSize < length urls"
      by (auto simp: chunks_Nil_iff batchSize_def)
    have tr: "trace ?svc2 @ batchTrace (chunks batchSize (drop (i + batchSize) urls))
               = trace svc @ batchTrace (chunks batchSize (drop i urls))"
      unfolding ch batchTrace_Cons using rest by (auto simp: delay_def)
    have st: "?svc2\<lparr>trace := trace ?svc2 @ batchTrace (chunks batchSize (drop (i + batchSize) urls))\<rparr>
               = svc\<lparr>trace := trace svc @ batchTrace (chunks batchSize (drop i urls))\<rparr>"
      unfolding tr by (simp add: delay_def)
    show ?thesis
      apply (subst crawlLoop.simps)
      using True b ih res st by simp
  qed
qed



lemma cr_url_toCrawlResult: "cr_url (toCrawlResult url out) = url"
  by (cases out) (simp_all add: toCrawlResult_def)

lemma initialized_crawlMultiple:
  assumes "isInitialized svc"
  shows "\<exists>results svc'.
           crawlMultiple w svc urls options = (Inr results, svc')
         \<and> map cr_url results = urls
         \<and> trace svc' = trace svc @ batchTrace (chunks batchSize urls)
         \<and> concat (chunks batchSize urls) = urls"
proof -
  let ?f = "\<lambda>url. toCrawlResult url (python_run w url (spread (config svc) options))"
  have "map cr_url (map ?f urls) = urls"
    by (simp add: cr_url_toCrawlResult comp_def)
  moreover have "concat (chunks batchSize urls) = urls"
    by (simp add: concat_chunks batchSize_def)
  ultimately show ?thesis
    using initialized_crawlLoop [OF assms, of w urls options 0 "[]"]
    by (simp add: crawlMultiple_def)
qed
end
